theory Spec2Isabelle
  imports Complex_Main "HOL-Library.Signed_Division"
begin

section \<open>Harbor column converters: shared primitives\<close>

text \<open>
  The two programs \<^verbatim>\<open>hgps.c\<close> and \<^verbatim>\<open>hsensor.c\<close> read a CSV file line by line,
  turn every data line into fixed-width columns and optionally average the records
  of a time window.

  C \<^verbatim>\<open>float\<close> arithmetic is not fixed here: the operations the programs use are the
  fields of a record \<open>fops\<close> that every function takes as its first argument, so each
  theorem holds for any interpretation of them (IEEE single precision included, with its
  rounding, infinities and NaN).  C \<^verbatim>\<open>int\<close> values are HOL integers: the programs'
  sums are assumed to stay in the range of \<^verbatim>\<open>int\<close> (signed overflow is undefined in C),
  and \<^verbatim>\<open>/\<close> and \<^verbatim>\<open>%\<close> truncate towards zero (\<open>sdiv\<close>, \<open>smod\<close>).
\<close>

record 'f fops =
  f_add :: "'f \<Rightarrow> 'f \<Rightarrow> 'f"      \<comment> \<open>\<^verbatim>\<open>a + b\<close>\<close>
  f_sub :: "'f \<Rightarrow> 'f \<Rightarrow> 'f"      \<comment> \<open>\<^verbatim>\<open>a - b\<close>\<close>
  f_div :: "'f \<Rightarrow> 'f \<Rightarrow> 'f"      \<comment> \<open>\<^verbatim>\<open>a / b\<close>\<close>
  f_gt :: "'f \<Rightarrow> 'f \<Rightarrow> bool"     \<comment> \<open>\<^verbatim>\<open>a > b\<close>\<close>
  f_lt0 :: "'f \<Rightarrow> bool"          \<comment> \<open>\<^verbatim>\<open>a < 0.0\<close>\<close>
  f_le0 :: "'f \<Rightarrow> bool"          \<comment> \<open>\<^verbatim>\<open>a <= 0.0\<close>\<close>
  f_of_int :: "int \<Rightarrow> 'f"        \<comment> \<open>\<^verbatim>\<open>(float) n\<close>\<close>
  f_neg1 :: "'f"                 \<comment> \<open>the constant \<^verbatim>\<open>-1.0\<close>\<close>

datatype error = DivByZero

text \<open>A sequence of statements, each of which may fail; the first failure ends it.\<close>

fun seqE :: "('a \<Rightarrow> error + 'a) list \<Rightarrow> 'a \<Rightarrow> error + 'a" where
  "seqE [] a = Inr a"
| "seqE (f # fs) a = (case f a of Inl e \<Rightarrow> Inl e | Inr a' \<Rightarrow> seqE fs a')"

text \<open>
  \<^verbatim>\<open>avg->x /= (float) navg\<close> and \<^verbatim>\<open>avg->x /= navg\<close> on a field \<open>x\<close> given by its
  selector and its update function.  A zero divisor is the error \<open>DivByZero\<close>.
\<close>

definition fdiv_assign ::
  "'f fops \<Rightarrow> int \<Rightarrow> ('r \<Rightarrow> 'f) \<Rightarrow> (('f \<Rightarrow> 'f) \<Rightarrow> 'r \<Rightarrow> 'r) \<Rightarrow> 'r \<Rightarrow> error + 'r" where
  "fdiv_assign ops navg get upd a =
     (if navg = 0 then Inl DivByZero
      else Inr (upd (\<lambda>_. f_div ops (get a) (f_of_int ops navg)) a))"

definition idiv_assign ::
  "int \<Rightarrow> ('r \<Rightarrow> int) \<Rightarrow> ((int \<Rightarrow> int) \<Rightarrow> 'r \<Rightarrow> 'r) \<Rightarrow> 'r \<Rightarrow> error + 'r" where
  "idiv_assign navg get upd a =
     (if navg = 0 then Inl DivByZero
      else Inr (upd (\<lambda>_. get a sdiv navg) a))"

text \<open>
  \<^verbatim>\<open>isdigit(*str)\<close> in the C locale: the first character of the buffer, which is
  the terminating NUL when the string is empty, is one of the ten ASCII digits.
\<close>

definition isdigit :: "char \<Rightarrow> bool" where
  "isdigit c = (c \<in> set ''0123456789'')"

definition deref :: "string \<Rightarrow> char" where
  "deref str = (case str of [] \<Rightarrow> CHR 0x00 | c # _ \<Rightarrow> c)"

section \<open>hgps.c\<close>

subsection \<open>Data\<close>

record 'f GPSDATA =
  mday :: int
  month :: int
  year :: int
  hour :: int
  minute :: int
  second :: int
  todaySecs :: int
  nsats :: int
  tsecs :: 'f
  lat :: 'f
  lon :: 'f
  alt :: 'f

text \<open>
  The eleven values of a line, in the order of the conversions of the \<^verbatim>\<open>sscanf\<close>
  format and of the columns of the two \<^verbatim>\<open>printf\<close> formats.
\<close>

record 'f gps_fields =
  x_tsecs :: 'f
  x_mday :: int
  x_month :: int
  x_year :: int
  x_hour :: int
  x_minute :: int
  x_second :: int
  x_lat :: 'f
  x_lon :: 'f
  x_alt :: 'f
  x_nsats :: int

text \<open>
  What the program prints: a comment (the whole text, \<^verbatim>\<open>"# "\<close> included, is kept),
  the columns of one record, or the columns of an average followed by the number of
  records in it.  The widths of the columns are not modelled.
\<close>

datatype 'f gps_out =
  Comment string
| Columns "'f gps_fields"
| AvgColumns "'f gps_fields" int

text \<open>
  \<^verbatim>\<open>sscanf\<close> belongs to the C library; it is a parameter of the model, a function from
  the line to the number it returns and the values it converted.  The call assigns the
  first \<open>n\<close> targets, in the order of the format, and leaves the others as they were.
\<close>

type_synonym 'f gps_sscanf = "string \<Rightarrow> int \<times> 'f gps_fields"

definition gps_store :: "int \<Rightarrow> 'f gps_fields \<Rightarrow> 'f GPSDATA \<Rightarrow> 'f GPSDATA" where
  "gps_store n v r =
     r\<lparr> tsecs := (if 1 \<le> n then x_tsecs v else tsecs r),
        mday := (if 2 \<le> n then x_mday v else mday r),
        month := (if 3 \<le> n then x_month v else month r),
        year := (if 4 \<le> n then x_year v else year r),
        hour := (if 5 \<le> n then x_hour v else hour r),
        minute := (if 6 \<le> n then x_minute v else minute r),
        second := (if 7 \<le> n then x_second v else second r),
        lat := (if 8 \<le> n then x_lat v else lat r),
        lon := (if 9 \<le> n then x_lon v else lon r),
        alt := (if 10 \<le> n then x_alt v else alt r),
        nsats := (if 11 \<le> n then x_nsats v else nsats r) \<rparr>"

text \<open>The arguments of the \<^verbatim>\<open>printf\<close> of an unaveraged record.\<close>

definition gps_columns :: "'f GPSDATA \<Rightarrow> 'f gps_fields" where
  "gps_columns r =
     \<lparr> x_tsecs = tsecs r, x_mday = mday r, x_month = month r, x_year = year r,
       x_hour = hour r, x_minute = minute r, x_second = second r,
       x_lat = lat r, x_lon = lon r, x_alt = alt r, x_nsats = nsats r \<rparr>"

subsection \<open>updateAverage\<close>

definition gps_updateAverage ::
  "'f fops \<Rightarrow> int \<Rightarrow> 'f GPSDATA \<Rightarrow> 'f GPSDATA \<Rightarrow> int \<times> 'f GPSDATA" where
  "gps_updateAverage ops navg r a =
     (if navg < 1 then
        (0 + 1,
         a\<lparr> tsecs := tsecs r, mday := mday r, month := month r, year := year r,
            hour := hour r, minute := minute r, second := second r,
            todaySecs := hour r * 3600 + minute r * 60 + second r,
            lat := lat r, lon := lon r, alt := alt r, nsats := nsats r \<rparr>)
      else
        (let hh = (if hour r < hour a then hour r + 24 else hour r)
         in (navg + 1,
             a\<lparr> tsecs := f_add ops (tsecs a) (tsecs r),
                todaySecs := todaySecs a + (hh * 3600 + minute r * 60 + second r),
                lat := f_add ops (lat a) (lat r),
                lon := f_add ops (lon a) (lon r),
                alt := f_add ops (alt a) (alt r),
                nsats := nsats a + nsats r \<rparr>)))"

subsection \<open>showAverage\<close>

text \<open>
  Returns what is printed (nothing, or one line) and the structure \<open>avg\<close>, whose sums
  the function overwrites with the averages.
\<close>

definition gps_showAverage ::
  "'f fops \<Rightarrow> int \<Rightarrow> 'f GPSDATA \<Rightarrow> 'f GPSDATA \<Rightarrow> error + ('f gps_out list \<times> 'f GPSDATA)" where
  "gps_showAverage ops navg r a =
     (if navg < 1 then Inr ([], a)
      else
        case seqE [fdiv_assign ops navg tsecs tsecs_update,
                   fdiv_assign ops navg lat lat_update,
                   fdiv_assign ops navg lon lon_update,
                   fdiv_assign ops navg alt alt_update,
                   idiv_assign navg todaySecs todaySecs_update,
                   idiv_assign navg nsats nsats_update] a of
          Inl e \<Rightarrow> Inl e
        | Inr a' \<Rightarrow>
            (let hh = todaySecs a' sdiv 3600;
                 mm = (todaySecs a' - hh * 3600) sdiv 60;
                 ss = todaySecs a' smod 60;
                 (hh', yr, mon, md) =
                   (if hh \<ge> 24 then (hh - 24, year r, month r, mday r)
                    else (hh, year a', month a', mday a'))
             in Inr ([AvgColumns
                        \<lparr> x_tsecs = tsecs a', x_mday = md, x_month = mon, x_year = yr,
                          x_hour = hh', x_minute = mm, x_second = ss,
                          x_lat = lat a', x_lon = lon a', x_alt = alt a',
                          x_nsats = nsats a' \<rparr> navg],
                     a')))"

subsection \<open>main\<close>

text \<open>
  The variables of \<^verbatim>\<open>main\<close> that live across iterations of the loop.  \<open>st_raw\<close> keeps
  whatever the last \<^verbatim>\<open>sscanf\<close> stored, also for a line that was then written as a
  comment.
\<close>

record 'f gps_state =
  st_navg :: int
  st_t0 :: 'f
  st_raw :: "'f GPSDATA"
  st_avg :: "'f GPSDATA"

text \<open>
  The body of the \<^verbatim>\<open>while\<close> loop for one string \<open>str\<close> returned by \<^verbatim>\<open>fgets\<close>: the
  new state and what was printed.
\<close>

definition gps_line ::
  "'f fops \<Rightarrow> 'f gps_sscanf \<Rightarrow> 'f \<Rightarrow> int \<Rightarrow> string \<Rightarrow> 'f gps_state
     \<Rightarrow> error + ('f gps_state \<times> 'f gps_out list)" where
  "gps_line ops sscanf avgSecs minSats str s =
     (if \<not> isdigit (deref str) then Inr (s, [Comment (''# '' @ str)])
      else
        let (n, v) = sscanf str;
            raw1 = gps_store n v (st_raw s)
        in if n \<noteq> 11 then Inr (s\<lparr>st_raw := raw1\<rparr>, [Comment (''# '' @ str)])
           else if nsats raw1 < minSats then
             Inr (s\<lparr>st_raw := raw1\<rparr>, [Comment (''# '' @ str)])
           else
             let raw2 = raw1\<lparr>year := year raw1 + 2000\<rparr>
             in if f_le0 ops avgSecs then
                  Inr (s\<lparr>st_raw := raw2\<rparr>, [Columns (gps_columns raw2)])
                else if f_gt ops (f_sub ops (tsecs raw2) (st_t0 s)) avgSecs
                        \<or> f_lt0 ops (st_t0 s) then
                  (case gps_showAverage ops (st_navg s) raw2 (st_avg s) of
                     Inl e \<Rightarrow> Inl e
                   | Inr (out, avg1) \<Rightarrow>
                       (let (navg', avg2) = gps_updateAverage ops 0 raw2 avg1
                        in Inr (\<lparr>st_navg = navg', st_t0 = tsecs raw2,
                                 st_raw = raw2, st_avg = avg2\<rparr>, out)))
                else
                  (let (navg', avg2) = gps_updateAverage ops (st_navg s) raw2 (st_avg s)
                   in Inr (\<lparr>st_navg = navg', st_t0 = st_t0 s,
                            st_raw = raw2, st_avg = avg2\<rparr>, [])))"

text \<open>
  The \<^verbatim>\<open>while\<close> loop over the strings that \<^verbatim>\<open>fgets\<close> returns, in file order:
  each is a line of the file with its newline, or a piece of at most 255 characters of
  a longer line (\<open>read_file\<close> below gives them for the characters of a file).
\<close>

fun gps_loop ::
  "'f fops \<Rightarrow> 'f gps_sscanf \<Rightarrow> 'f \<Rightarrow> int \<Rightarrow> string list \<Rightarrow> 'f gps_state
     \<Rightarrow> error + ('f gps_state \<times> 'f gps_out list)" where
  "gps_loop ops sscanf avgSecs minSats [] s = Inr (s, [])"
| "gps_loop ops sscanf avgSecs minSats (str # strs) s =
     (case gps_line ops sscanf avgSecs minSats str s of
        Inl e \<Rightarrow> Inl e
      | Inr (s', out) \<Rightarrow>
          (case gps_loop ops sscanf avgSecs minSats strs s' of
             Inl e \<Rightarrow> Inl e
           | Inr (s'', out') \<Rightarrow> Inr (s'', out @ out')))"

text \<open>
  \<^verbatim>\<open>main\<close> from the initialisation of \<open>t0\<close> and \<open>navg\<close> to the last \<^verbatim>\<open>showAverage\<close>.
  \<open>raw0\<close> and \<open>avg0\<close> are the uninitialised contents of the two local structures;
  \<open>avgSecs\<close> and \<open>minSats\<close> are the values of \<^verbatim>\<open>atof(argv[2])\<close> and \<^verbatim>\<open>atoi(argv[3])\<close>.
  The check of the arguments, the opening of the file and the comment line that echoes
  the command are before this point and are not modelled.
\<close>

definition gps_init :: "'f fops \<Rightarrow> 'f GPSDATA \<Rightarrow> 'f GPSDATA \<Rightarrow> 'f gps_state" where
  "gps_init ops raw0 avg0 =
     \<lparr>st_navg = 0, st_t0 = f_neg1 ops, st_raw = raw0, st_avg = avg0\<rparr>"

definition gps_main ::
  "'f fops \<Rightarrow> 'f gps_sscanf \<Rightarrow> 'f \<Rightarrow> int \<Rightarrow> 'f GPSDATA \<Rightarrow> 'f GPSDATA \<Rightarrow> string list
     \<Rightarrow> error + 'f gps_out list" where
  "gps_main ops sscanf avgSecs minSats raw0 avg0 strs =
     (case gps_loop ops sscanf avgSecs minSats strs (gps_init ops raw0 avg0) of
        Inl e \<Rightarrow> Inl e
      | Inr (s, out) \<Rightarrow>
          (case gps_showAverage ops (st_navg s) (st_raw s) (st_avg s) of
             Inl e \<Rightarrow> Inl e
           | Inr (out', _) \<Rightarrow> Inr (out @ out')))"

subsection \<open>A runnable instance\<close>

text \<open>
  To run the model on concrete lines, the float operations are computed exactly on
  rationals, and \<^verbatim>\<open>sscanf\<close> is replaced by a scanner for the decimal notation the
  Harbor files use: \<^verbatim>\<open>%d\<close> reads white space, an optional sign and digits;
  \<^verbatim>\<open>%f\<close> reads white space, an optional sign, digits and an optional fraction (no
  exponent, no hexadecimal, no \<^verbatim>\<open>inf\<close>, no \<^verbatim>\<open>nan\<close>); any other character
  of the format must be the next character of the input.  Scanning stops at the first
  directive that fails.  The general theorems do not use this instance.
\<close>

definition exact_ops :: "rat fops" where
  "exact_ops =
     \<lparr> f_add = (\<lambda>a b. a + b), f_sub = (\<lambda>a b. a - b), f_div = (\<lambda>a b. a / b),
       f_gt = (\<lambda>a b. a > b), f_lt0 = (\<lambda>a. a < 0), f_le0 = (\<lambda>a. a \<le> 0),
       f_of_int = of_int, f_neg1 = - 1 \<rparr>"

datatype directive = ConvF | ConvD | Lit char

datatype scanned = ValF rat | ValD int

definition isspace :: "char \<Rightarrow> bool" where
  "isspace c = (c \<in> set [CHR '' '', CHR 0x09, CHR 0x0A, CHR 0x0B, CHR 0x0C, CHR 0x0D])"

definition digit_val :: "char \<Rightarrow> int" where
  "digit_val c = of_char c - 48"

text \<open>The value of a run of digits read after the value \<open>acc\<close>.\<close>

fun digits_val :: "int \<Rightarrow> string \<Rightarrow> int" where
  "digits_val acc [] = acc"
| "digits_val acc (c # cs) = digits_val (acc * 10 + digit_val c) cs"

definition scan_sign :: "string \<Rightarrow> bool \<times> string" where
  "scan_sign s =
     (case s of
        c # cs \<Rightarrow> (if c = CHR ''-'' then (True, cs)
                   else if c = CHR ''+'' then (False, cs) else (False, s))
      | [] \<Rightarrow> (False, s))"

definition scan_d :: "string \<Rightarrow> (scanned \<times> string) option" where
  "scan_d s =
     (let (neg, s1) = scan_sign (dropWhile isspace s);
          ds = takeWhile isdigit s1
      in if ds = [] then None
         else Some (ValD (if neg then - digits_val 0 ds else digits_val 0 ds),
                    dropWhile isdigit s1))"

definition scan_fraction :: "string \<Rightarrow> string \<times> string" where
  "scan_fraction s =
     (case s of
        c # cs \<Rightarrow> (if c = CHR ''.'' then (takeWhile isdigit cs, dropWhile isdigit cs)
                   else ([], s))
      | [] \<Rightarrow> ([], s))"

definition scan_f :: "string \<Rightarrow> (scanned \<times> string) option" where
  "scan_f s =
     (let (neg, s1) = scan_sign (dropWhile isspace s);
          ip = takeWhile isdigit s1;
          (fp, s3) = scan_fraction (dropWhile isdigit s1)
      in if ip = [] \<and> fp = [] then None
         else
           (let m = of_int (digits_val 0 (ip @ fp)) / of_int (10 ^ length fp)
            in Some (ValF (if neg then - m else m), s3)))"

text \<open>
  The directives in order; \<open>scan_next\<close> continues after a conversion, with its value and
  the rest of the input, or stops when the conversion failed.
\<close>

fun scan_format :: "directive list \<Rightarrow> string \<Rightarrow> scanned list"
  and scan_next :: "directive list \<Rightarrow> (scanned \<times> string) option \<Rightarrow> scanned list" where
  "scan_format [] s = []"
| "scan_format (ConvF # ds) s = scan_next ds (scan_f s)"
| "scan_format (ConvD # ds) s = scan_next ds (scan_d s)"
| "scan_format (Lit c # ds) [] = []"
| "scan_format (Lit c # ds) (c' # s') = (if c' = c then scan_format ds s' else [])"
| "scan_next ds None = []"
| "scan_next ds (Some (v, s')) = v # scan_format ds s'"

definition valF :: "scanned list \<Rightarrow> nat \<Rightarrow> rat" where
  "valF vs i = (if i < length vs then (case vs ! i of ValF x \<Rightarrow> x | ValD _ \<Rightarrow> 0) else 0)"

definition valD :: "scanned list \<Rightarrow> nat \<Rightarrow> int" where
  "valD vs i = (if i < length vs then (case vs ! i of ValD n \<Rightarrow> n | ValF _ \<Rightarrow> 0) else 0)"

text \<open>The format \<^verbatim>\<open>"%f,%d/%d/%d,%d:%d:%d,%f,%f,%f,%d"\<close>.\<close>

definition gps_format :: "directive list" where
  "gps_format =
     [ConvF, Lit (CHR '',''), ConvD, Lit (CHR ''/''), ConvD, Lit (CHR ''/''), ConvD,
      Lit (CHR '',''), ConvD, Lit (CHR '':''), ConvD, Lit (CHR '':''), ConvD,
      Lit (CHR '',''), ConvF, Lit (CHR '',''), ConvF, Lit (CHR '',''), ConvF,
      Lit (CHR '',''), ConvD]"

definition gps_scan :: "rat gps_sscanf" where
  "gps_scan str =
     (let vs = scan_format gps_format str
      in (int (length vs),
          \<lparr> x_tsecs = valF vs 0, x_mday = valD vs 1, x_month = valD vs 2,
            x_year = valD vs 3, x_hour = valD vs 4, x_minute = valD vs 5,
            x_second = valD vs 6, x_lat = valF vs 7, x_lon = valF vs 8,
            x_alt = valF vs 9, x_nsats = valD vs 10 \<rparr>))"

text \<open>Contents for the two uninitialised structures of \<^verbatim>\<open>main\<close>.\<close>

definition gps_junk :: "rat GPSDATA" where
  "gps_junk =
     \<lparr> mday = 0, month = 0, year = 0, hour = 0, minute = 0, second = 0, todaySecs = 0,
       nsats = 0, tsecs = 0, lat = 0, lon = 0, alt = 0 \<rparr>"

section \<open>hsensor.c\<close>

subsection \<open>Data\<close>

record 'f SENSORDATA =
  tsecs :: 'f
  tmpi :: 'f
  a1x :: 'f
  a1y :: 'f
  a1z :: 'f
  a2x :: 'f
  a2y :: 'f
  a2z :: 'f
  magx :: 'f
  magy :: 'f
  magz :: 'f
  gyrx :: 'f
  gyry :: 'f
  gyrz :: 'f
  humid :: 'f
  prss :: 'f
  tmpx :: 'f
  vbat :: 'f

text \<open>
  Both \<^verbatim>\<open>printf\<close> calls of the program use the same format and print the eighteen
  fields of a structure, so a printed data line is the structure itself; an averaged
  line carries no count.
\<close>

datatype 'f sensor_out =
  SComment string
| SColumns "'f SENSORDATA"

type_synonym 'f sensor_sscanf = "string \<Rightarrow> int \<times> 'f SENSORDATA"

definition sensor_store :: "int \<Rightarrow> 'f SENSORDATA \<Rightarrow> 'f SENSORDATA \<Rightarrow> 'f SENSORDATA" where
  "sensor_store n v r =
     r\<lparr>
        tsecs := (if 1 \<le> n then tsecs v else tsecs r),
        tmpi := (if 2 \<le> n then tmpi v else tmpi r),
        a1x := (if 3 \<le> n then a1x v else a1x r),
        a1y := (if 4 \<le> n then a1y v else a1y r),
        a1z := (if 5 \<le> n then a1z v else a1z r),
        a2x := (if 6 \<le> n then a2x v else a2x r),
        a2y := (if 7 \<le> n then a2y v else a2y r),
        a2z := (if 8 \<le> n then a2z v else a2z r),
        magx := (if 9 \<le> n then magx v else magx r),
        magy := (if 10 \<le> n then magy v else magy r),
        magz := (if 11 \<le> n then magz v else magz r),
        gyrx := (if 12 \<le> n then gyrx v else gyrx r),
        gyry := (if 13 \<le> n then gyry v else gyry r),
        gyrz := (if 14 \<le> n then gyrz v else gyrz r),
        humid := (if 15 \<le> n then humid v else humid r),
        prss := (if 16 \<le> n then prss v else prss r),
        tmpx := (if 17 \<le> n then tmpx v else tmpx r),
        vbat := (if 18 \<le> n then vbat v else vbat r) \<rparr>"

subsection \<open>updateAverage\<close>

definition sensor_updateAverage ::
  "'f fops \<Rightarrow> int \<Rightarrow> 'f SENSORDATA \<Rightarrow> 'f SENSORDATA \<Rightarrow> int \<times> 'f SENSORDATA" where
  "sensor_updateAverage ops navg r a =
     (if navg < 1 then
        (0 + 1,
         a\<lparr>
            tsecs := tsecs r,
            tmpi := tmpi r,
            a1x := a1x r,
            a1y := a1y r,
            a1z := a1z r,
            a2x := a2x r,
            a2y := a2y r,
            a2z := a2z r,
            magx := magx r,
            magy := magy r,
            magz := magz r,
            gyrx := gyrx r,
            gyry := gyry r,
            gyrz := gyrz r,
            humid := humid r,
            prss := prss r,
            tmpx := tmpx r,
            vbat := vbat r \<rparr>)
      else
        (navg + 1,
         a\<lparr>
            tsecs := f_add ops (tsecs a) (tsecs r),
            tmpi := f_add ops (tmpi a) (tmpi r),
            a1x := f_add ops (a1x a) (a1x r),
            a1y := f_add ops (a1y a) (a1y r),
            a1z := f_add ops (a1z a) (a1z r),
            a2x := f_add ops (a2x a) (a2x r),
            a2y := f_add ops (a2y a) (a2y r),
            a2z := f_add ops (a2z a) (a2z r),
            magx := f_add ops (magx a) (magx r),
            magy := f_add ops (magy a) (magy r),
            magz := f_add ops (magz a) (magz r),
            gyrx := f_add ops (gyrx a) (gyrx r),
            gyry := f_add ops (gyry a) (gyry r),
            gyrz := f_add ops (gyrz a) (gyrz r),
            humid := f_add ops (humid a) (humid r),
            prss := f_add ops (prss a) (prss r),
            tmpx := f_add ops (tmpx a) (tmpx r),
            vbat := f_add ops (vbat a) (vbat r) \<rparr>))"

subsection \<open>showAverage\<close>

definition sensor_showAverage ::
  "'f fops \<Rightarrow> int \<Rightarrow> 'f SENSORDATA \<Rightarrow> error + ('f sensor_out list \<times> 'f SENSORDATA)" where
  "sensor_showAverage ops navg a =
     (if navg < 1 then Inr ([], a)
      else
        case seqE [
              fdiv_assign ops navg tsecs tsecs_update,
              fdiv_assign ops navg tmpi tmpi_update,
              fdiv_assign ops navg a1x a1x_update,
              fdiv_assign ops navg a1y a1y_update,
              fdiv_assign ops navg a1z a1z_update,
              fdiv_assign ops navg a2x a2x_update,
              fdiv_assign ops navg a2y a2y_update,
              fdiv_assign ops navg a2z a2z_update,
              fdiv_assign ops navg magx magx_update,
              fdiv_assign ops navg magy magy_update,
              fdiv_assign ops navg magz magz_update,
              fdiv_assign ops navg gyrx gyrx_update,
              fdiv_assign ops navg gyry gyry_update,
              fdiv_assign ops navg gyrz gyrz_update,
              fdiv_assign ops navg humid humid_update,
              fdiv_assign ops navg prss prss_update,
              fdiv_assign ops navg tmpx tmpx_update,
              fdiv_assign ops navg vbat vbat_update] a of
          Inl e \<Rightarrow> Inl e
        | Inr a' \<Rightarrow> Inr ([SColumns a'], a'))"

subsection \<open>main\<close>

record 'f sensor_state =
  ss_navg :: int
  ss_t0 :: 'f
  ss_raw :: "'f SENSORDATA"
  ss_avg :: "'f SENSORDATA"

definition sensor_line ::
  "'f fops \<Rightarrow> 'f sensor_sscanf \<Rightarrow> 'f \<Rightarrow> string \<Rightarrow> 'f sensor_state
     \<Rightarrow> error + ('f sensor_state \<times> 'f sensor_out list)" where
  "sensor_line ops sscanf avgSecs str s =
     (if \<not> isdigit (deref str) then Inr (s, [SComment (''# '' @ str)])
      else
        let (n, v) = sscanf str;
            raw1 = sensor_store n v (ss_raw s)
        in if n \<noteq> 18 then Inr (s\<lparr>ss_raw := raw1\<rparr>, [SComment (''# '' @ str)])
           else if f_le0 ops avgSecs then
             Inr (s\<lparr>ss_raw := raw1\<rparr>, [SColumns raw1])
           else if f_gt ops (f_sub ops (tsecs raw1) (ss_t0 s)) avgSecs
                   \<or> f_lt0 ops (ss_t0 s) then
             (case sensor_showAverage ops (ss_navg s) (ss_avg s) of
                Inl e \<Rightarrow> Inl e
              | Inr (out, avg1) \<Rightarrow>
                  (let (navg', avg2) = sensor_updateAverage ops 0 raw1 avg1
                   in Inr (\<lparr>ss_navg = navg', ss_t0 = tsecs raw1,
                            ss_raw = raw1, ss_avg = avg2\<rparr>, out)))
           else
             (let (navg', avg2) = sensor_updateAverage ops (ss_navg s) raw1 (ss_avg s)
              in Inr (\<lparr>ss_navg = navg', ss_t0 = ss_t0 s,
                       ss_raw = raw1, ss_avg = avg2\<rparr>, [])))"

fun sensor_loop ::
  "'f fops \<Rightarrow> 'f sensor_sscanf \<Rightarrow> 'f \<Rightarrow> string list \<Rightarrow> 'f sensor_state
     \<Rightarrow> error + ('f sensor_state \<times> 'f sensor_out list)" where
  "sensor_loop ops sscanf avgSecs [] s = Inr (s, [])"
| "sensor_loop ops sscanf avgSecs (str # strs) s =
     (case sensor_line ops sscanf avgSecs str s of
        Inl e \<Rightarrow> Inl e
      | Inr (s', out) \<Rightarrow>
          (case sensor_loop ops sscanf avgSecs strs s' of
             Inl e \<Rightarrow> Inl e
           | Inr (s'', out') \<Rightarrow> Inr (s'', out @ out')))"

text \<open>
  \<^verbatim>\<open>main\<close> from the initialisation of \<open>t0\<close> and \<open>navg\<close> to the last \<^verbatim>\<open>showAverage\<close>,
  with the same conventions as for \<^verbatim>\<open>hgps.c\<close>.
\<close>

definition sensor_init :: "'f fops \<Rightarrow> 'f SENSORDATA \<Rightarrow> 'f SENSORDATA \<Rightarrow> 'f sensor_state" where
  "sensor_init ops raw0 avg0 =
     \<lparr>ss_navg = 0, ss_t0 = f_neg1 ops, ss_raw = raw0, ss_avg = avg0\<rparr>"

definition sensor_main ::
  "'f fops \<Rightarrow> 'f sensor_sscanf \<Rightarrow> 'f \<Rightarrow> 'f SENSORDATA \<Rightarrow> 'f SENSORDATA \<Rightarrow> string list
     \<Rightarrow> error + 'f sensor_out list" where
  "sensor_main ops sscanf avgSecs raw0 avg0 strs =
     (case sensor_loop ops sscanf avgSecs strs (sensor_init ops raw0 avg0) of
        Inl e \<Rightarrow> Inl e
      | Inr (s, out) \<Rightarrow>
          (case sensor_showAverage ops (ss_navg s) (ss_avg s) of
             Inl e \<Rightarrow> Inl e
           | Inr (out', _) \<Rightarrow> Inr (out @ out')))"

subsection \<open>A runnable instance\<close>

text \<open>The format of eighteen \<^verbatim>\<open>%f\<close> separated by commas, for the decimal scanner above.\<close>

definition sensor_format :: "directive list" where
  "sensor_format =
     [ConvF, Lit (CHR '',''), ConvF, Lit (CHR '',''), ConvF, Lit (CHR '',''), ConvF, Lit (CHR '',''), ConvF, Lit (CHR '',''), ConvF, Lit (CHR '',''), ConvF, Lit (CHR '',''), ConvF, Lit (CHR '',''), ConvF, Lit (CHR '',''), ConvF, Lit (CHR '',''), ConvF, Lit (CHR '',''), ConvF, Lit (CHR '',''), ConvF, Lit (CHR '',''), ConvF, Lit (CHR '',''), ConvF, Lit (CHR '',''), ConvF, Lit (CHR '',''), ConvF, Lit (CHR '',''), ConvF]"

definition sensor_scan :: "rat sensor_sscanf" where
  "sensor_scan str =
     (let vs = scan_format sensor_format str
      in (int (length vs),
          \<lparr> tsecs = valF vs 0, tmpi = valF vs 1, a1x = valF vs 2, a1y = valF vs 3, a1z = valF vs 4, a2x = valF vs 5, a2y = valF vs 6, a2z = valF vs 7, magx = valF vs 8, magy = valF vs 9, magz = valF vs 10, gyrx = valF vs 11, gyry = valF vs 12, gyrz = valF vs 13, humid = valF vs 14, prss = valF vs 15, tmpx = valF vs 16, vbat = valF vs 17 \<rparr>))"

definition sensor_junk :: "rat SENSORDATA" where
  "sensor_junk =
     \<lparr> tsecs = 0, tmpi = 0, a1x = 0, a1y = 0, a1z = 0, a2x = 0, a2y = 0, a2z = 0, magx = 0, magy = 0, magz = 0, gyrx = 0, gyry = 0, gyrz = 0, humid = 0, prss = 0, tmpx = 0, vbat = 0 \<rparr>"

section \<open>Notions used in the statements\<close>

subsection \<open>Valid records\<close>

text \<open>
  A line of \<^verbatim>\<open>hgps.c\<close> is a valid record when it passes the three tests of the loop
  that end in \<^verbatim>\<open>continue\<close>; its record is what \<^verbatim>\<open>sscanf\<close> converted, with the year
  made a full year.  A line of \<^verbatim>\<open>hsensor.c\<close> passes two tests.
\<close>

definition gps_accepts :: "'f gps_sscanf \<Rightarrow> int \<Rightarrow> string \<Rightarrow> bool" where
  "gps_accepts sscanf minSats str =
     (isdigit (deref str) \<and> fst (sscanf str) = 11 \<and> \<not> x_nsats (snd (sscanf str)) < minSats)"

definition gps_record :: "'f gps_sscanf \<Rightarrow> string \<Rightarrow> 'f gps_fields" where
  "gps_record sscanf str = (snd (sscanf str))\<lparr>x_year := x_year (snd (sscanf str)) + 2000\<rparr>"

definition gps_valid :: "'f gps_sscanf \<Rightarrow> int \<Rightarrow> string list \<Rightarrow> 'f gps_fields list" where
  "gps_valid sscanf minSats strs =
     map (gps_record sscanf) (filter (gps_accepts sscanf minSats) strs)"

definition sensor_accepts :: "'f sensor_sscanf \<Rightarrow> string \<Rightarrow> bool" where
  "sensor_accepts sscanf str = (isdigit (deref str) \<and> fst (sscanf str) = 18)"

definition sensor_valid :: "'f sensor_sscanf \<Rightarrow> string list \<Rightarrow> 'f SENSORDATA list" where
  "sensor_valid sscanf strs =
     map (\<lambda>str. snd (sscanf str)) (filter (sensor_accepts sscanf) strs)"

text \<open>What a line that is not a valid record, or any line without averaging, prints.\<close>

definition gps_plain :: "'f gps_sscanf \<Rightarrow> int \<Rightarrow> string \<Rightarrow> 'f gps_out" where
  "gps_plain sscanf minSats str =
     (if gps_accepts sscanf minSats str then Columns (gps_record sscanf str)
      else Comment (''# '' @ str))"

definition sensor_plain :: "'f sensor_sscanf \<Rightarrow> string \<Rightarrow> 'f sensor_out" where
  "sensor_plain sscanf str =
     (if sensor_accepts sscanf str then SColumns (snd (sscanf str))
      else SComment (''# '' @ str))"

subsection \<open>Reading the output\<close>

text \<open>The member counts of the averaged lines of \<^verbatim>\<open>hgps.c\<close>, in the order printed.\<close>

fun avg_counts :: "'f gps_out list \<Rightarrow> int list" where
  "avg_counts [] = []"
| "avg_counts (AvgColumns f n # os) = n # avg_counts os"
| "avg_counts (Comment c # os) = avg_counts os"
| "avg_counts (Columns f # os) = avg_counts os"

text \<open>The data lines of \<^verbatim>\<open>hsensor.c\<close>, in the order printed.\<close>

fun data_lines :: "'f sensor_out list \<Rightarrow> 'f SENSORDATA list" where
  "data_lines [] = []"
| "data_lines (SColumns a # os) = a # data_lines os"
| "data_lines (SComment c # os) = data_lines os"

subsection \<open>Windows\<close>

text \<open>
  The windows as the loop of \<^verbatim>\<open>main\<close> forms them, for a sequence of valid records
  with time axis \<open>time\<close>: the closed windows, the members of the open one and the value
  of \<open>t0\<close>.  The test is the one of the program.
\<close>

definition win_step ::
  "'f fops \<Rightarrow> 'f \<Rightarrow> ('r \<Rightarrow> 'f) \<Rightarrow> 'r list list \<times> 'r list \<times> 'f \<Rightarrow> 'r
     \<Rightarrow> 'r list list \<times> 'r list \<times> 'f" where
  "win_step ops avgSecs time st r =
     (case st of (cls, cur, t0) \<Rightarrow>
        if f_gt ops (f_sub ops (time r) t0) avgSecs \<or> f_lt0 ops t0
        then ((if cur = [] then cls else cls @ [cur]), [r], time r)
        else (cls, cur @ [r], t0))"

definition win_run ::
  "'f fops \<Rightarrow> 'f \<Rightarrow> ('r \<Rightarrow> 'f) \<Rightarrow> 'r list \<Rightarrow> 'r list list \<times> 'r list \<times> 'f" where
  "win_run ops avgSecs time rs = foldl (win_step ops avgSecs time) ([], [], f_neg1 ops) rs"

definition win_closed :: "'r list list \<times> 'r list \<times> 'f \<Rightarrow> 'r list list" where
  "win_closed st = fst st"

definition win_open :: "'r list list \<times> 'r list \<times> 'f \<Rightarrow> 'r list" where
  "win_open st = fst (snd st)"

definition win_all :: "'r list list \<times> 'r list \<times> 'f \<Rightarrow> 'r list list" where
  "win_all st = (if win_open st = [] then win_closed st else win_closed st @ [win_open st])"

text \<open>
  The windows in the specification's words: a record starts a new window when no window
  is open or when its time exceeds the time of the first record of the open window by
  more than the window length; otherwise it joins the open window.
\<close>

definition spec_observe ::
  "'f fops \<Rightarrow> 'f \<Rightarrow> ('r \<Rightarrow> 'f) \<Rightarrow> 'r list list \<times> 'r list \<Rightarrow> 'r \<Rightarrow> 'r list list \<times> 'r list" where
  "spec_observe ops avgSecs time st r =
     (case st of (cls, cur) \<Rightarrow>
        (case cur of
           [] \<Rightarrow> (cls, [r])
         | first # _ \<Rightarrow>
             if f_gt ops (f_sub ops (time r) (time first)) avgSecs
             then (cls @ [cur], [r])
             else (cls, cur @ [r])))"

definition spec_run ::
  "'f fops \<Rightarrow> 'f \<Rightarrow> ('r \<Rightarrow> 'f) \<Rightarrow> 'r list \<Rightarrow> 'r list list \<times> 'r list" where
  "spec_run ops avgSecs time rs = foldl (spec_observe ops avgSecs time) ([], []) rs"

definition spec_windows :: "'f fops \<Rightarrow> 'f \<Rightarrow> ('r \<Rightarrow> 'f) \<Rightarrow> 'r list \<Rightarrow> 'r list list" where
  "spec_windows ops avgSecs time rs =
     (case spec_run ops avgSecs time rs of
        (cls, cur) \<Rightarrow> if cur = [] then cls else cls @ [cur])"

subsection \<open>The mean of a window of sensor records\<close>

text \<open>
  In the specification's words: eighteen independent sums, each divided by the number
  of members with one float division.
\<close>

definition sensor_sum :: "'f fops \<Rightarrow> 'f SENSORDATA \<Rightarrow> 'f SENSORDATA \<Rightarrow> 'f SENSORDATA" where
  "sensor_sum ops a r =
     \<lparr>
       tsecs = f_add ops (tsecs a) (tsecs r),
       tmpi = f_add ops (tmpi a) (tmpi r),
       a1x = f_add ops (a1x a) (a1x r),
       a1y = f_add ops (a1y a) (a1y r),
       a1z = f_add ops (a1z a) (a1z r),
       a2x = f_add ops (a2x a) (a2x r),
       a2y = f_add ops (a2y a) (a2y r),
       a2z = f_add ops (a2z a) (a2z r),
       magx = f_add ops (magx a) (magx r),
       magy = f_add ops (magy a) (magy r),
       magz = f_add ops (magz a) (magz r),
       gyrx = f_add ops (gyrx a) (gyrx r),
       gyry = f_add ops (gyry a) (gyry r),
       gyrz = f_add ops (gyrz a) (gyrz r),
       humid = f_add ops (humid a) (humid r),
       prss = f_add ops (prss a) (prss r),
       tmpx = f_add ops (tmpx a) (tmpx r),
       vbat = f_add ops (vbat a) (vbat r) \<rparr>"

definition sensor_scale :: "'f fops \<Rightarrow> int \<Rightarrow> 'f SENSORDATA \<Rightarrow> 'f SENSORDATA" where
  "sensor_scale ops n a =
     \<lparr>
       tsecs = f_div ops (tsecs a) (f_of_int ops n),
       tmpi = f_div ops (tmpi a) (f_of_int ops n),
       a1x = f_div ops (a1x a) (f_of_int ops n),
       a1y = f_div ops (a1y a) (f_of_int ops n),
       a1z = f_div ops (a1z a) (f_of_int ops n),
       a2x = f_div ops (a2x a) (f_of_int ops n),
       a2y = f_div ops (a2y a) (f_of_int ops n),
       a2z = f_div ops (a2z a) (f_of_int ops n),
       magx = f_div ops (magx a) (f_of_int ops n),
       magy = f_div ops (magy a) (f_of_int ops n),
       magz = f_div ops (magz a) (f_of_int ops n),
       gyrx = f_div ops (gyrx a) (f_of_int ops n),
       gyry = f_div ops (gyry a) (f_of_int ops n),
       gyrz = f_div ops (gyrz a) (f_of_int ops n),
       humid = f_div ops (humid a) (f_of_int ops n),
       prss = f_div ops (prss a) (f_of_int ops n),
       tmpx = f_div ops (tmpx a) (f_of_int ops n),
       vbat = f_div ops (vbat a) (f_of_int ops n) \<rparr>"

definition sensor_mean :: "'f fops \<Rightarrow> 'f SENSORDATA list \<Rightarrow> 'f SENSORDATA option" where
  "sensor_mean ops w =
     (case w of
        [] \<Rightarrow> None
      | r # rs \<Rightarrow> Some (sensor_scale ops (int (length w)) (foldl (sensor_sum ops) r rs)))"

subsection \<open>The time of day of a window of GPS records\<close>

text \<open>\<^verbatim>\<open>updateAverage\<close> called for the records of a list in turn, as the loop does.\<close>

definition gps_accumulate ::
  "'f fops \<Rightarrow> 'f GPSDATA list \<Rightarrow> int \<times> 'f GPSDATA \<Rightarrow> int \<times> 'f GPSDATA" where
  "gps_accumulate ops rs st = foldl (\<lambda>st r. gps_updateAverage ops (fst st) r (snd st)) st rs"

text \<open>
  The seconds a record adds to the sum when its hour is compared with the hour \<open>ref\<close>,
  and the sum of a window under the two readings of the reference hour: the hour of the
  record added just before, or the hour of the first record of the window.
\<close>

definition rollover_secs :: "int \<Rightarrow> 'f GPSDATA \<Rightarrow> int" where
  "rollover_secs ref r =
     (if hour r < ref then hour r + 24 else hour r) * 3600 + minute r * 60 + second r"

fun sum_ref_previous :: "int \<Rightarrow> 'f GPSDATA list \<Rightarrow> int" where
  "sum_ref_previous prev [] = 0"
| "sum_ref_previous prev (r # rs) = rollover_secs prev r + sum_ref_previous (hour r) rs"

definition spec_todaySecs_previous :: "'f GPSDATA list \<Rightarrow> int" where
  "spec_todaySecs_previous w =
     (case w of
        [] \<Rightarrow> 0
      | r # rs \<Rightarrow> hour r * 3600 + minute r * 60 + second r + sum_ref_previous (hour r) rs)"

definition todaySecs_first :: "'f GPSDATA list \<Rightarrow> int" where
  "todaySecs_first w =
     (case w of
        [] \<Rightarrow> 0
      | r # rs \<Rightarrow> hour r * 3600 + minute r * 60 + second r
                  + sum_list (map (rollover_secs (hour r)) rs))"

subsection \<open>Reading the file\<close>







subsection \<open>The sums of a GPS window\<close>



subsection \<open>Sample inputs\<close>

text \<open>
  A GPS file with a header, a record with too few satellites for a minimum of four, and
  records that fall into two windows of ten seconds; a sensor file with a header, a
  line of text, a line with too few fields and a line with more than eighteen.
\<close>

definition gps_sample :: "string list" where
  "gps_sample =
     [''Time,Date,UTC,Lat,Lon,Alt,Sats'',
      ''1.0,01/02/24,00:00:01,10.0,20.0,5.0,08'',
      ''5.0,01/02/24,00:00:05,10.5,20.0,6.0,07'',
      ''7.0,01/02/24,00:00:07,0.0,0.0,0.0,02'',
      ''11.0,01/02/24,00:00:11,11.0,20.0,7.0,09'',
      ''12.0,01/02/24,00:00:12,12.0,20.0,8.0,08'']"

definition sensor_sample :: "string list" where
  "sensor_sample =
     [''Time,Tmpi,A1x'',
      ''1.0,1,2,3,4,5,6,7,8,9,10,11,12,13,14,15,16,17'',
      ''not a record'',
      ''2.0,3,2,3,4,5,6,7,8,9,10,11,12,13,14,15,16,19,extra'',
      ''3.0,4'',
      ''20.0,1,2,3,4,5,6,7,8,9,10,11,12,13,14,15,16,17'']"

text \<open>
  Three valid records within one window of ten seconds whose times of day are 23:59:58,
  23:59:59 and 00:00:01; three records at 23:59:59, 00:00:01 and 00:00:02, as lines and
  as structures; and a window across midnight followed by a record with two satellites.
\<close>

definition midnight_sample :: "string list" where
  "midnight_sample =
     [''1.0,31/12/23,23:59:58,10.0,20.0,5.0,08'',
      ''2.0,31/12/23,23:59:59,10.0,20.0,5.0,08'',
      ''3.0,01/01/24,00:00:01,10.0,20.0,5.0,08'']"

definition rollover_lines :: "string list" where
  "rollover_lines =
     [''1.0,31/12/23,23:59:59,10.0,20.0,5.0,08'',
      ''2.0,01/01/24,00:00:01,10.0,20.0,5.0,08'',
      ''3.0,01/01/24,00:00:02,10.0,20.0,5.0,08'']"

definition rollover_sample :: "rat GPSDATA list" where
  "rollover_sample =
     [\<lparr> mday = 31, month = 12, year = 2023, hour = 23, minute = 59, second = 59,
        todaySecs = 0, nsats = 8, tsecs = 1, lat = 10, lon = 20, alt = 5 \<rparr>,
      \<lparr> mday = 1, month = 1, year = 2024, hour = 0, minute = 0, second = 1,
        todaySecs = 0, nsats = 8, tsecs = 2, lat = 10, lon = 20, alt = 5 \<rparr>,
      \<lparr> mday = 1, month = 1, year = 2024, hour = 0, minute = 0, second = 2,
        todaySecs = 0, nsats = 8, tsecs = 3, lat = 10, lon = 20, alt = 5 \<rparr>]"

definition filtered_last_sample :: "string list" where
  "filtered_last_sample =
     [''1.0,31/12/23,23:59:59,10.0,20.0,5.0,08'',
      ''2.0,01/01/24,00:00:03,10.0,20.0,5.0,08'',
      ''3.0,01/01/24,00:00:04,10.0,20.0,5.0,02'']"







section \<open>Properties\<close>

subsection \<open>showAverage\<close>

lemma gps_showAverage_lt1:
  "navg < 1 \<Longrightarrow> gps_showAverage ops navg r a = Inr ([], a)"
  by (simp add: gps_showAverage_def)

lemma gps_showAverage_ge1:
  "1 \<le> navg \<Longrightarrow> \<exists>f a'. gps_showAverage ops navg r a = Inr ([AvgColumns f navg], a')"
  by (simp add: gps_showAverage_def fdiv_assign_def idiv_assign_def Let_def split: prod.splits)

lemma sensor_showAverage_lt1:
  "navg < 1 \<Longrightarrow> sensor_showAverage ops navg a = Inr ([], a)"
  by (simp add: sensor_showAverage_def)

lemma sensor_showAverage_ge1:
  "1 \<le> navg \<Longrightarrow> \<exists>a'. sensor_showAverage ops navg a = Inr ([SColumns a'], a')"
  by (simp add: sensor_showAverage_def fdiv_assign_def)

text \<open>
  Claim C7.  In both programs \<^verbatim>\<open>showAverage\<close> divides by the count only behind its
  guard: called with a count below one it returns at once, printing nothing and leaving
  the sums as they are; called with a count of at least one every division succeeds and
  exactly one line is printed.  So the error \<open>DivByZero\<close> is never returned.
\<close>

theorem showAverage_division_guarded:
  "(navg < 1 \<longrightarrow>
      gps_showAverage ops navg r a = Inr ([], a) \<and>
      sensor_showAverage ops navg sa = Inr ([], sa)) \<and>
   (1 \<le> navg \<longrightarrow>
      (\<exists>f a'. gps_showAverage ops navg r a = Inr ([AvgColumns f navg], a')) \<and>
      (\<exists>a'. sensor_showAverage ops navg sa = Inr ([SColumns a'], a'))) \<and>
   gps_showAverage ops navg r a \<noteq> Inl DivByZero \<and>
   sensor_showAverage ops navg sa \<noteq> Inl DivByZero"
proof (cases "navg < 1")
  case True
  then show ?thesis
    by (simp add: gps_showAverage_lt1 sensor_showAverage_lt1)
next
  case False
  then have ge: "1 \<le> navg" by simp
  from gps_showAverage_ge1 [OF ge, of ops r a] sensor_showAverage_ge1 [OF ge, of ops sa] ge
  show ?thesis by auto
qed

theorem showAverage_division_guarded_witness:
  "gps_showAverage exact_ops 0 gps_junk gps_junk = Inr ([], gps_junk) \<and>
   sensor_showAverage exact_ops 0 sensor_junk = Inr ([], sensor_junk) \<and>
   (\<exists>f a'. gps_showAverage exact_ops 2 gps_junk gps_junk = Inr ([AvgColumns f 2], a')) \<and>
   (\<exists>a'. sensor_showAverage exact_ops 2 sensor_junk = Inr ([SColumns a'], a'))"
  using showAverage_division_guarded [of 0 exact_ops gps_junk gps_junk sensor_junk]
        showAverage_division_guarded [of 2 exact_ops gps_junk gps_junk sensor_junk]
  by simp

subsection \<open>One line of hgps.c\<close>

lemma gps_store_full:
  "gps_columns ((gps_store 11 v r)\<lparr>year := year (gps_store 11 v r) + 2000\<rparr>) = v\<lparr>x_year := x_year v + 2000\<rparr>"
  by (simp add: gps_columns_def gps_store_def)

lemma gps_store_record:
  "(gps_store 11 v r)\<lparr>year := year (gps_store 11 v r) + 2000\<rparr> = gps_store 11 (v\<lparr>x_year := x_year v + 2000\<rparr>) r"
  by (simp add: gps_store_def)

lemma gps_store_nsats: "nsats (gps_store 11 v r) = x_nsats v"
  by (simp add: gps_store_def)

lemma gps_store_tsecs: "GPSDATA.tsecs (gps_store 11 v r) = x_tsecs v"
  by (simp add: gps_store_def)

lemma gps_updateAverage_fst:
  "fst (gps_updateAverage ops navg r a) = (if navg < 1 then 1 else navg + 1)"
  by (simp add: gps_updateAverage_def Let_def)

lemma gps_line_nodigit:
  "\<not> isdigit (deref str) \<Longrightarrow>
   gps_line ops sscanf avgSecs minSats str s = Inr (s, [Comment (''# '' @ str)])"
  by (simp add: gps_line_def)

lemma gps_line_short:
  "isdigit (deref str) \<Longrightarrow> fst (sscanf str) \<noteq> 11 \<Longrightarrow>
   gps_line ops sscanf avgSecs minSats str s =
     Inr (s\<lparr>st_raw := gps_store (fst (sscanf str)) (snd (sscanf str)) (st_raw s)\<rparr>,
          [Comment (''# '' @ str)])"
  by (cases "sscanf str") (simp add: gps_line_def)

lemma gps_line_fewsats:
  "isdigit (deref str) \<Longrightarrow> fst (sscanf str) = 11 \<Longrightarrow> x_nsats (snd (sscanf str)) < minSats \<Longrightarrow>
   gps_line ops sscanf avgSecs minSats str s =
     Inr (s\<lparr>st_raw := gps_store 11 (snd (sscanf str)) (st_raw s)\<rparr>,
          [Comment (''# '' @ str)])"
  by (cases "sscanf str") (simp add: gps_line_def gps_store_nsats)


lemma gps_line_reject:
  assumes "\<not> gps_accepts sscanf minSats str"
  shows "\<exists>r'. gps_line ops sscanf avgSecs minSats str s = Inr (s\<lparr>st_raw := r'\<rparr>, [Comment (''# '' @ str)])"
proof (cases "isdigit (deref str)")
  case False
  then have "gps_line ops sscanf avgSecs minSats str s = Inr (s\<lparr>st_raw := st_raw s\<rparr>, [Comment (''# '' @ str)])"
    by (simp add: gps_line_nodigit)
  then show ?thesis by blast
next
  case d: True
  show ?thesis
  proof (cases "fst (sscanf str) = 11")
    case False
    with d gps_line_short [of str sscanf ops avgSecs minSats s] show ?thesis by blast
  next
    case True
    with assms d have "x_nsats (snd (sscanf str)) < minSats"
      by (simp add: gps_accepts_def)
    with d True gps_line_fewsats [of str sscanf minSats ops avgSecs s] show ?thesis by blast
  qed
qed

lemma gps_line_accepted:
  assumes "gps_accepts sscanf minSats str"
  shows "gps_line ops sscanf avgSecs minSats str s =
    (let raw2 = gps_store 11 (gps_record sscanf str) (st_raw s)
     in if f_le0 ops avgSecs then
          Inr (s\<lparr>st_raw := raw2\<rparr>, [Columns (gps_record sscanf str)])
        else if f_gt ops (f_sub ops (x_tsecs (gps_record sscanf str)) (st_t0 s)) avgSecs
                \<or> f_lt0 ops (st_t0 s) then
          (case gps_showAverage ops (st_navg s) raw2 (st_avg s) of
             Inl e \<Rightarrow> Inl e
           | Inr (out, avg1) \<Rightarrow>
               Inr (\<lparr>st_navg = 1, st_t0 = x_tsecs (gps_record sscanf str),
                     st_raw = raw2, st_avg = snd (gps_updateAverage ops 0 raw2 avg1)\<rparr>, out))
        else
          Inr (\<lparr>st_navg = (if st_navg s < 1 then 1 else st_navg s + 1), st_t0 = st_t0 s,
                st_raw = raw2,
                st_avg = snd (gps_updateAverage ops (st_navg s) raw2 (st_avg s))\<rparr>, []))"
proof -
  obtain n v where sc: "sscanf str = (n, v)" by (cases "sscanf str")
  have n: "n = 11" and d: "isdigit (deref str)" and ns: "\<not> x_nsats v < minSats"
    using assms sc by (simp_all add: gps_accepts_def)
  have rec: "gps_record sscanf str = v\<lparr>x_year := x_year v + 2000\<rparr>"
    using sc by (simp add: gps_record_def)
  have raw2: "(gps_store 11 v (st_raw s))\<lparr>year := year (gps_store 11 v (st_raw s)) + 2000\<rparr>
                = gps_store 11 (gps_record sscanf str) (st_raw s)"
    by (simp add: gps_store_record rec)
  have cols: "gps_columns (gps_store 11 (gps_record sscanf str) (st_raw s)) = gps_record sscanf str"
    unfolding raw2 [symmetric] by (simp add: gps_store_full rec)
  have ts: "GPSDATA.tsecs (gps_store 11 (gps_record sscanf str) (st_raw s)) = x_tsecs (gps_record sscanf str)"
    by (simp add: gps_store_tsecs)
  have upd: "\<And>k a. gps_updateAverage ops k (gps_store 11 (gps_record sscanf str) (st_raw s)) a
       = ((if k < 1 then 1 else k + 1), snd (gps_updateAverage ops k (gps_store 11 (gps_record sscanf str) (st_raw s)) a))"
    using gps_updateAverage_fst [of ops _ "gps_store 11 (gps_record sscanf str) (st_raw s)"]
    by (simp add: prod_eq_iff)
  show ?thesis
    unfolding gps_line_def sc
    apply (simp only: d n ns gps_store_nsats Let_def prod.case raw2 cols ts if_False simp_thms)
    apply (subst upd)
    apply (subst (2) upd)
    apply (simp split: sum.splits prod.splits)
    done
qed

subsection \<open>One line of hsensor.c\<close>

lemma sensor_store_full: "sensor_store 18 v r = v"
  by (simp add: sensor_store_def)

lemma sensor_updateAverage_fst:
  "fst (sensor_updateAverage ops navg r a) = (if navg < 1 then 1 else navg + 1)"
  by (simp add: sensor_updateAverage_def)

lemma sensor_line_nodigit:
  "\<not> isdigit (deref str) \<Longrightarrow>
   sensor_line ops sscanf avgSecs str s = Inr (s, [SComment (''# '' @ str)])"
  by (simp add: sensor_line_def)

lemma sensor_line_short:
  "isdigit (deref str) \<Longrightarrow> fst (sscanf str) \<noteq> 18 \<Longrightarrow>
   sensor_line ops sscanf avgSecs str s =
     Inr (s\<lparr>ss_raw := sensor_store (fst (sscanf str)) (snd (sscanf str)) (ss_raw s)\<rparr>,
          [SComment (''# '' @ str)])"
  by (cases "sscanf str") (simp add: sensor_line_def)

lemma sensor_line_reject:
  assumes "\<not> sensor_accepts sscanf str"
  shows "\<exists>r'. sensor_line ops sscanf avgSecs str s = Inr (s\<lparr>ss_raw := r'\<rparr>, [SComment (''# '' @ str)])"
proof (cases "isdigit (deref str)")
  case False
  then have "sensor_line ops sscanf avgSecs str s = Inr (s\<lparr>ss_raw := ss_raw s\<rparr>, [SComment (''# '' @ str)])"
    by (simp add: sensor_line_nodigit)
  then show ?thesis by blast
next
  case d: True
  with assms have "fst (sscanf str) \<noteq> 18"
    by (simp add: sensor_accepts_def)
  with d sensor_line_short [of str sscanf ops avgSecs s] show ?thesis by blast
qed

lemma sensor_line_accepted:
  assumes "sensor_accepts sscanf str"
  shows "sensor_line ops sscanf avgSecs str s =
    (let raw1 = snd (sscanf str)
     in if f_le0 ops avgSecs then
          Inr (s\<lparr>ss_raw := raw1\<rparr>, [SColumns raw1])
        else if f_gt ops (f_sub ops (SENSORDATA.tsecs raw1) (ss_t0 s)) avgSecs
                \<or> f_lt0 ops (ss_t0 s) then
          (case sensor_showAverage ops (ss_navg s) (ss_avg s) of
             Inl e \<Rightarrow> Inl e
           | Inr (out, avg1) \<Rightarrow>
               Inr (\<lparr>ss_navg = 1, ss_t0 = SENSORDATA.tsecs raw1,
                     ss_raw = raw1, ss_avg = snd (sensor_updateAverage ops 0 raw1 avg1)\<rparr>, out))
        else
          Inr (\<lparr>ss_navg = (if ss_navg s < 1 then 1 else ss_navg s + 1), ss_t0 = ss_t0 s,
                ss_raw = raw1,
                ss_avg = snd (sensor_updateAverage ops (ss_navg s) raw1 (ss_avg s))\<rparr>, []))"
proof -
  obtain n v where sc: "sscanf str = (n, v)" by (cases "sscanf str")
  have n: "n = 18" and d: "isdigit (deref str)"
    using assms sc by (simp_all add: sensor_accepts_def)
  have upd: "\<And>k a. sensor_updateAverage ops k v a
       = ((if k < 1 then 1 else k + 1), snd (sensor_updateAverage ops k v a))"
    using sensor_updateAverage_fst [of ops _ v]
    by (simp add: prod_eq_iff)
  show ?thesis
    unfolding sensor_line_def sc
    apply (simp only: d n sensor_store_full Let_def prod.case snd_conv if_False simp_thms)
    apply (subst upd)
    apply (subst (2) upd)
    apply (simp split: sum.splits prod.splits)
    done
qed

subsection \<open>The loop of hgps.c with averaging\<close>

lemma avg_counts_append: "avg_counts (xs @ ys) = avg_counts xs @ avg_counts ys"
  by (induction xs rule: avg_counts.induct) simp_all

lemma gps_valid_Cons:
  "gps_valid sscanf minSats (str # strs) =
     (if gps_accepts sscanf minSats str
      then gps_record sscanf str # gps_valid sscanf minSats strs
      else gps_valid sscanf minSats strs)"
  by (simp add: gps_valid_def)

lemma gps_valid_Nil: "gps_valid sscanf minSats [] = []"
  by (simp add: gps_valid_def)

lemma gps_line_avg_cases:
  assumes acc: "gps_accepts sscanf minSats str" and avg: "\<not> f_le0 ops avgSecs"
  shows "\<exists>s' out. gps_line ops sscanf avgSecs minSats str s = Inr (s', out) \<and>
     (if f_gt ops (f_sub ops (x_tsecs (gps_record sscanf str)) (st_t0 s)) avgSecs
         \<or> f_lt0 ops (st_t0 s)
      then st_navg s' = 1 \<and> st_t0 s' = x_tsecs (gps_record sscanf str) \<and>
           (st_navg s < 1 \<longrightarrow> out = []) \<and>
           (1 \<le> st_navg s \<longrightarrow> (\<exists>f. out = [AvgColumns f (st_navg s)]))
      else st_navg s' = (if st_navg s < 1 then 1 else st_navg s + 1) \<and>
           st_t0 s' = st_t0 s \<and> out = [])"
proof (cases "f_gt ops (f_sub ops (x_tsecs (gps_record sscanf str)) (st_t0 s)) avgSecs
                \<or> f_lt0 ops (st_t0 s)")
  case c: True
  let ?raw2 = "gps_store 11 (gps_record sscanf str) (st_raw s)"
  show ?thesis
  proof (cases "st_navg s < 1")
    case True
    from gps_showAverage_lt1 [OF True, of ops ?raw2 "st_avg s"] c avg True
    show ?thesis
      by (simp add: gps_line_accepted [OF acc] Let_def)
  next
    case False
    then have ge: "1 \<le> st_navg s" by simp
    from gps_showAverage_ge1 [OF ge, of ops ?raw2 "st_avg s"]
    obtain f a' where "gps_showAverage ops (st_navg s) ?raw2 (st_avg s) = Inr ([AvgColumns f (st_navg s)], a')"
      by blast
    with c avg False show ?thesis
      by (simp add: gps_line_accepted [OF acc] Let_def)
  qed
next
  case False
  with avg show ?thesis
    by (simp add: gps_line_accepted [OF acc] Let_def)
qed

lemma gps_loop_windows:
  assumes avg: "\<not> f_le0 ops avgSecs"
  shows "st_navg s = int (length cur) \<Longrightarrow> st_t0 s = t0 \<Longrightarrow>
    \<exists>s' out. gps_loop ops sscanf avgSecs minSats strs s = Inr (s', out) \<and>
      map (int \<circ> length)
          (win_closed (foldl (win_step ops avgSecs x_tsecs) (cls, cur, t0) (gps_valid sscanf minSats strs)))
        = map (int \<circ> length) cls @ avg_counts out \<and>
      st_navg s' = int (length (win_open (foldl (win_step ops avgSecs x_tsecs) (cls, cur, t0)
                                      (gps_valid sscanf minSats strs)))) \<and>
      st_t0 s' = snd (snd (foldl (win_step ops avgSecs x_tsecs) (cls, cur, t0)
                                      (gps_valid sscanf minSats strs)))"
proof (induction strs arbitrary: s cls cur t0)
  case Nil
  then show ?case by (simp add: gps_valid_Nil win_closed_def win_open_def)
next
  case (Cons str strs)
  show ?case
  proof (cases "gps_accepts sscanf minSats str")
    case False
    from gps_line_reject [OF False, of ops avgSecs s]
    obtain r' where l: "gps_line ops sscanf avgSecs minSats str s = Inr (s\<lparr>st_raw := r'\<rparr>, [Comment (''# '' @ str)])"
      by blast
    from Cons.prems have "st_navg (s\<lparr>st_raw := r'\<rparr>) = int (length cur)" "st_t0 (s\<lparr>st_raw := r'\<rparr>) = t0"
      by simp_all
    from Cons.IH [OF this, of cls] l False show ?thesis
      by (auto simp add: gps_valid_Cons)
  next
    case acc: True
    from gps_line_avg_cases [OF acc avg, of s]
    obtain s1 out1 where l: "gps_line ops sscanf avgSecs minSats str s = Inr (s1, out1)"
      and c: "if f_gt ops (f_sub ops (x_tsecs (gps_record sscanf str)) (st_t0 s)) avgSecs
                 \<or> f_lt0 ops (st_t0 s)
              then st_navg s1 = 1 \<and> st_t0 s1 = x_tsecs (gps_record sscanf str) \<and>
                   (st_navg s < 1 \<longrightarrow> out1 = []) \<and>
                   (1 \<le> st_navg s \<longrightarrow> (\<exists>f. out1 = [AvgColumns f (st_navg s)]))
              else st_navg s1 = (if st_navg s < 1 then 1 else st_navg s + 1) \<and>
                   st_t0 s1 = st_t0 s \<and> out1 = []"
      by blast
    let ?r = "gps_record sscanf str"
    show ?thesis
    proof (cases "f_gt ops (f_sub ops (x_tsecs ?r) t0) avgSecs \<or> f_lt0 ops t0")
      case True
      have len: "cur = [] \<longrightarrow> st_navg s < 1" "cur \<noteq> [] \<longrightarrow> 1 \<le> st_navg s"
        using Cons.prems(1) by (simp_all add: Suc_le_eq)
      from True c Cons.prems have s1: "st_navg s1 = int (length [?r])" "st_t0 s1 = x_tsecs ?r"
        and o': "st_navg s < 1 \<longrightarrow> out1 = []" "1 \<le> st_navg s \<longrightarrow> (\<exists>f. out1 = [AvgColumns f (st_navg s)])"
        by simp_all
      from o' len Cons.prems(1)
      have o: "cur = [] \<longrightarrow> out1 = []" "cur \<noteq> [] \<longrightarrow> (\<exists>f. out1 = [AvgColumns f (int (length cur))])"
        by auto
      have step: "win_step ops avgSecs x_tsecs (cls, cur, t0) ?r
                    = ((if cur = [] then cls else cls @ [cur]), [?r], x_tsecs ?r)"
        using True by (simp add: win_step_def)
      from Cons.IH [OF s1, of "if cur = [] then cls else cls @ [cur]"] l acc step o
      show ?thesis
        by (cases "cur = []") (auto simp add: gps_valid_Cons)
    next
      case False
      from False c Cons.prems have s1: "st_navg s1 = int (length (cur @ [?r]))" "st_t0 s1 = t0"
        and o: "out1 = []"
        by (simp_all split: if_splits)
      have step: "win_step ops avgSecs x_tsecs (cls, cur, t0) ?r = (cls, cur @ [?r], t0)"
        using False by (simp add: win_step_def)
      from Cons.IH [OF s1, of cls] l acc step o
      show ?thesis
        by (auto simp add: gps_valid_Cons)
    qed
  qed
qed

subsection \<open>Windows\<close>

lemma win_step_concat:
  "concat (win_closed (win_step ops w time (cls, cur, t0) r)) @ win_open (win_step ops w time (cls, cur, t0) r)
     = concat cls @ cur @ [r]"
  by (simp add: win_step_def win_closed_def win_open_def)

lemma win_foldl_concat:
  "concat (win_closed (foldl (win_step ops w time) st rs)) @ win_open (foldl (win_step ops w time) st rs)
     = concat (win_closed st) @ win_open st @ rs"
proof (induction rs arbitrary: st)
  case Nil
  then show ?case by simp
next
  case (Cons r rs)
  obtain cls cur t0 where st: "st = (cls, cur, t0)" by (cases st)
  have "concat (win_closed (win_step ops w time st r)) @ win_open (win_step ops w time st r)
          = concat (win_closed st) @ win_open st @ [r]"
    unfolding st using win_step_concat [of ops w time cls cur t0 r]
    by (simp add: win_closed_def win_open_def)
  with Cons.IH [of "win_step ops w time st r"] show ?case by simp
qed

lemma win_foldl_nonempty:
  "[] \<notin> set (win_closed st) \<Longrightarrow> [] \<notin> set (win_closed (foldl (win_step ops w time) st rs))"
proof (induction rs arbitrary: st)
  case Nil
  then show ?case by simp
next
  case (Cons r rs)
  obtain cls cur t0 where st: "st = (cls, cur, t0)" by (cases st)
  from Cons.prems have "[] \<notin> set (win_closed (win_step ops w time st r))"
    unfolding st by (simp add: win_step_def win_closed_def)
  from Cons.IH [OF this] show ?case by simp
qed

lemma win_all_concat: "concat (win_all (win_run ops w time rs)) = rs"
  using win_foldl_concat [of ops w time "([], [], f_neg1 ops)" rs]
  by (auto simp add: win_all_def win_run_def win_closed_def win_open_def)

lemma win_all_nonempty: "[] \<notin> set (win_all (win_run ops w time rs))"
  using win_foldl_nonempty [of "([], [], f_neg1 ops)" ops w time rs]
  by (simp add: win_all_def win_run_def win_closed_def)

lemma sum_list_length_concat:
  "sum_list (map (int \<circ> length) ws) = int (length (concat ws))"
  by (induction ws) simp_all

text \<open>Where no time is negative, the windows of the loop are those of the specification.\<close>

lemma win_step_spec:
  assumes "cur = [] \<longrightarrow> f_lt0 ops t0"
    and "cur \<noteq> [] \<longrightarrow> t0 = time (hd cur) \<and> \<not> f_lt0 ops t0"
  shows "win_step ops w time (cls, cur, t0) r
           = (fst (spec_observe ops w time (cls, cur) r),
              snd (spec_observe ops w time (cls, cur) r),
              (if cur = [] \<or> f_gt ops (f_sub ops (time r) t0) w then time r else t0))"
  using assms by (cases cur) (auto simp add: win_step_def spec_observe_def)

lemma win_foldl_spec:
  assumes "\<forall>r \<in> set rs. \<not> f_lt0 ops (time r)"
    and "cur = [] \<longrightarrow> f_lt0 ops t0"
    and "cur \<noteq> [] \<longrightarrow> t0 = time (hd cur) \<and> \<not> f_lt0 ops t0"
  shows "(win_closed (foldl (win_step ops w time) (cls, cur, t0) rs),
          win_open (foldl (win_step ops w time) (cls, cur, t0) rs))
           = foldl (spec_observe ops w time) (cls, cur) rs"
  using assms
proof (induction rs arbitrary: cls cur t0)
  case Nil
  then show ?case by (simp add: win_closed_def win_open_def)
next
  case (Cons r rs)
  let ?sp = "spec_observe ops w time (cls, cur) r"
  let ?t = "if cur = [] \<or> f_gt ops (f_sub ops (time r) t0) w then time r else t0"
  have step: "win_step ops w time (cls, cur, t0) r = (fst ?sp, snd ?sp, ?t)"
    using Cons.prems(2,3) by (rule win_step_spec)
  have nn: "\<not> f_lt0 ops (time r)" using Cons.prems(1) by simp
  have a: "snd ?sp = [] \<longrightarrow> f_lt0 ops ?t"
    by (cases cur) (simp_all add: spec_observe_def)
  have b: "snd ?sp \<noteq> [] \<longrightarrow> ?t = time (hd (snd ?sp)) \<and> \<not> f_lt0 ops ?t"
    using nn Cons.prems(3) by (cases cur) (auto simp add: spec_observe_def)
  have rest: "\<forall>r \<in> set rs. \<not> f_lt0 ops (time r)" using Cons.prems(1) by simp
  from Cons.IH [OF rest a b, of "fst ?sp"] step show ?case by simp
qed

lemma win_all_spec:
  assumes "f_lt0 ops (f_neg1 ops)" and "\<forall>r \<in> set rs. \<not> f_lt0 ops (time r)"
  shows "win_all (win_run ops w time rs) = spec_windows ops w time rs"
    and "win_closed (win_run ops w time rs) = fst (spec_run ops w time rs)"
    and "win_open (win_run ops w time rs) = snd (spec_run ops w time rs)"
proof -
  have "(win_closed (win_run ops w time rs), win_open (win_run ops w time rs)) = spec_run ops w time rs"
    unfolding win_run_def spec_run_def
    using win_foldl_spec [OF assms(2), of "[]" "f_neg1 ops" w "[]"] assms(1) by simp
  then show "win_all (win_run ops w time rs) = spec_windows ops w time rs"
    and "win_closed (win_run ops w time rs) = fst (spec_run ops w time rs)"
    and "win_open (win_run ops w time rs) = snd (spec_run ops w time rs)"
    by (simp_all add: win_all_def spec_windows_def prod_eq_iff split: prod.splits)
qed

subsection \<open>The loop of hsensor.c with averaging\<close>

lemma data_lines_append: "data_lines (xs @ ys) = data_lines xs @ data_lines ys"
  by (induction xs rule: data_lines.induct) simp_all

lemma sensor_valid_Cons:
  "sensor_valid sscanf (str # strs) =
     (if sensor_accepts sscanf str
      then snd (sscanf str) # sensor_valid sscanf strs
      else sensor_valid sscanf strs)"
  by (simp add: sensor_valid_def)

lemma sensor_valid_Nil: "sensor_valid sscanf [] = []"
  by (simp add: sensor_valid_def)

lemma sensor_updateAverage_first:
  "navg < 1 \<Longrightarrow> snd (sensor_updateAverage ops navg r a) = r"
  by (simp add: sensor_updateAverage_def)

lemma sensor_updateAverage_add:
  "1 \<le> navg \<Longrightarrow> snd (sensor_updateAverage ops navg r a) = sensor_sum ops a r"
  by (simp add: sensor_updateAverage_def sensor_sum_def)

lemma sensor_showAverage_scale:
  "1 \<le> navg \<Longrightarrow>
   sensor_showAverage ops navg a =
     Inr ([SColumns (sensor_scale ops navg a)], sensor_scale ops navg a)"
  by (simp add: sensor_showAverage_def fdiv_assign_def sensor_scale_def)

lemma sensor_mean_window:
  "cur \<noteq> [] \<Longrightarrow>
   sensor_mean ops cur
     = Some (sensor_scale ops (int (length cur)) (foldl (sensor_sum ops) (hd cur) (tl cur)))"
  by (cases cur) (simp_all add: sensor_mean_def)


lemma sensor_line_avg_cases:
  assumes acc: "sensor_accepts sscanf str" and avg: "\<not> f_le0 ops avgSecs"
  shows "\<exists>s' out. sensor_line ops sscanf avgSecs str s = Inr (s', out) \<and>
     (if f_gt ops (f_sub ops (SENSORDATA.tsecs (snd (sscanf str))) (ss_t0 s)) avgSecs
         \<or> f_lt0 ops (ss_t0 s)
      then ss_navg s' = 1 \<and> ss_t0 s' = SENSORDATA.tsecs (snd (sscanf str)) \<and>
           ss_avg s' = snd (sscanf str) \<and>
           (ss_navg s < 1 \<longrightarrow> out = []) \<and>
           (1 \<le> ss_navg s \<longrightarrow> out = [SColumns (sensor_scale ops (ss_navg s) (ss_avg s))])
      else ss_navg s' = (if ss_navg s < 1 then 1 else ss_navg s + 1) \<and>
           ss_t0 s' = ss_t0 s \<and> out = [] \<and>
           ss_avg s' = (if ss_navg s < 1 then snd (sscanf str)
                        else sensor_sum ops (ss_avg s) (snd (sscanf str))))"
proof (cases "f_gt ops (f_sub ops (SENSORDATA.tsecs (snd (sscanf str))) (ss_t0 s)) avgSecs
                \<or> f_lt0 ops (ss_t0 s)")
  case c: True
  show ?thesis
  proof (cases "ss_navg s < 1")
    case True
    from sensor_showAverage_lt1 [OF True, of ops "ss_avg s"] c avg True
    show ?thesis
      by (simp add: sensor_line_accepted [OF acc] Let_def sensor_updateAverage_first)
  next
    case False
    then have ge: "1 \<le> ss_navg s" by simp
    from sensor_showAverage_scale [OF ge, of ops "ss_avg s"] c avg False
    show ?thesis
      by (simp add: sensor_line_accepted [OF acc] Let_def sensor_updateAverage_first)
  qed
next
  case False
  with avg show ?thesis
    by (simp add: sensor_line_accepted [OF acc] Let_def sensor_updateAverage_first
          sensor_updateAverage_add)
qed

lemma sensor_loop_windows:
  assumes avg: "\<not> f_le0 ops avgSecs"
  shows "ss_navg s = int (length cur) \<Longrightarrow> ss_t0 s = t0 \<Longrightarrow>
    (cur \<noteq> [] \<longrightarrow> ss_avg s = foldl (sensor_sum ops) (hd cur) (tl cur)) \<Longrightarrow>
    \<exists>s' out. sensor_loop ops sscanf avgSecs strs s = Inr (s', out) \<and>
      map (sensor_mean ops)
          (win_closed (foldl (win_step ops avgSecs SENSORDATA.tsecs) (cls, cur, t0) (sensor_valid sscanf strs)))
        = map (sensor_mean ops) cls @ map Some (data_lines out) \<and>
      ss_navg s' = int (length (win_open (foldl (win_step ops avgSecs SENSORDATA.tsecs) (cls, cur, t0)
                                      (sensor_valid sscanf strs)))) \<and>
      (win_open (foldl (win_step ops avgSecs SENSORDATA.tsecs) (cls, cur, t0)
                                      (sensor_valid sscanf strs)) \<noteq> [] \<longrightarrow>
       sensor_mean ops (win_open (foldl (win_step ops avgSecs SENSORDATA.tsecs) (cls, cur, t0)
                                      (sensor_valid sscanf strs)))
         = Some (sensor_scale ops (ss_navg s') (ss_avg s')))"
proof (induction strs arbitrary: s cls cur t0)
  case Nil
  then show ?case
    by (simp add: sensor_valid_Nil win_closed_def win_open_def sensor_mean_window)
next
  case (Cons str strs)
  show ?case
  proof (cases "sensor_accepts sscanf str")
    case False
    from sensor_line_reject [OF False, of ops avgSecs s]
    obtain r' where l: "sensor_line ops sscanf avgSecs str s = Inr (s\<lparr>ss_raw := r'\<rparr>, [SComment (''# '' @ str)])"
      by blast
    from Cons.prems have "ss_navg (s\<lparr>ss_raw := r'\<rparr>) = int (length cur)" "ss_t0 (s\<lparr>ss_raw := r'\<rparr>) = t0"
      "cur \<noteq> [] \<longrightarrow> ss_avg (s\<lparr>ss_raw := r'\<rparr>) = foldl (sensor_sum ops) (hd cur) (tl cur)"
      by simp_all
    from Cons.IH [OF this, of cls] l False show ?thesis
      by (auto simp add: sensor_valid_Cons)
  next
    case acc: True
    let ?r = "snd (sscanf str)"
    from sensor_line_avg_cases [OF acc avg, of s]
    obtain s1 out1 where l: "sensor_line ops sscanf avgSecs str s = Inr (s1, out1)"
      and c: "if f_gt ops (f_sub ops (SENSORDATA.tsecs ?r) (ss_t0 s)) avgSecs \<or> f_lt0 ops (ss_t0 s)
      then ss_navg s1 = 1 \<and> ss_t0 s1 = SENSORDATA.tsecs ?r \<and>
           ss_avg s1 = ?r \<and>
           (ss_navg s < 1 \<longrightarrow> out1 = []) \<and>
           (1 \<le> ss_navg s \<longrightarrow> out1 = [SColumns (sensor_scale ops (ss_navg s) (ss_avg s))])
      else ss_navg s1 = (if ss_navg s < 1 then 1 else ss_navg s + 1) \<and>
           ss_t0 s1 = ss_t0 s \<and> out1 = [] \<and>
           ss_avg s1 = (if ss_navg s < 1 then ?r else sensor_sum ops (ss_avg s) ?r)"
      by blast
    have len: "cur = [] \<longrightarrow> ss_navg s < 1" "cur \<noteq> [] \<longrightarrow> 1 \<le> ss_navg s"
      using Cons.prems(1) by (simp_all add: Suc_le_eq)
    show ?thesis
    proof (cases "f_gt ops (f_sub ops (SENSORDATA.tsecs ?r) t0) avgSecs \<or> f_lt0 ops t0")
      case True
      from True c Cons.prems have s1: "ss_navg s1 = int (length [?r])" "ss_t0 s1 = SENSORDATA.tsecs ?r"
        "[?r] \<noteq> [] \<longrightarrow> ss_avg s1 = foldl (sensor_sum ops) (hd [?r]) (tl [?r])"
        and o': "ss_navg s < 1 \<longrightarrow> out1 = []"
          "1 \<le> ss_navg s \<longrightarrow> out1 = [SColumns (sensor_scale ops (ss_navg s) (ss_avg s))]"
        by simp_all
      have o: "cur = [] \<longrightarrow> out1 = []"
        "cur \<noteq> [] \<longrightarrow> out1 = [SColumns (sensor_scale ops (int (length cur)) (foldl (sensor_sum ops) (hd cur) (tl cur)))]"
        using o' len Cons.prems(1,3) by auto
      have step: "win_step ops avgSecs SENSORDATA.tsecs (cls, cur, t0) ?r
                    = ((if cur = [] then cls else cls @ [cur]), [?r], SENSORDATA.tsecs ?r)"
        using True by (simp add: win_step_def)
      from Cons.IH [OF s1, of "if cur = [] then cls else cls @ [cur]"] l acc step o
      show ?thesis
        by (cases "cur = []") (auto simp add: sensor_valid_Cons sensor_mean_window)
    next
      case False
      have fold: "cur \<noteq> [] \<longrightarrow> foldl (sensor_sum ops) (hd (cur @ [?r])) (tl (cur @ [?r]))
                    = sensor_sum ops (foldl (sensor_sum ops) (hd cur) (tl cur)) ?r"
        by (cases cur) simp_all
      from False c Cons.prems len fold
      have s1: "ss_navg s1 = int (length (cur @ [?r]))" "ss_t0 s1 = t0"
        "cur @ [?r] \<noteq> [] \<longrightarrow> ss_avg s1 = foldl (sensor_sum ops) (hd (cur @ [?r])) (tl (cur @ [?r]))"
        and o: "out1 = []"
        by (auto split: if_splits)
      have step: "win_step ops avgSecs SENSORDATA.tsecs (cls, cur, t0) ?r = (cls, cur @ [?r], t0)"
        using False by (simp add: win_step_def)
      from Cons.IH [OF s1, of cls] l acc step o
      show ?thesis
        by (auto simp add: sensor_valid_Cons)
    qed
  qed
qed

subsection \<open>The whole run with averaging\<close>

lemma gps_loop_init_windows:
  assumes avg: "\<not> f_le0 ops avgSecs"
  shows "\<exists>s out. gps_loop ops sscanf avgSecs minSats strs (gps_init ops raw0 avg0) = Inr (s, out) \<and>
      avg_counts out
        = map (int \<circ> length) (win_closed (win_run ops avgSecs x_tsecs (gps_valid sscanf minSats strs))) \<and>
      st_navg s = int (length (win_open (win_run ops avgSecs x_tsecs (gps_valid sscanf minSats strs))))"
proof -
  have "st_navg (gps_init ops raw0 avg0) = int (length ([] :: 'a gps_fields list))"
    and "st_t0 (gps_init ops raw0 avg0) = f_neg1 ops"
    by (simp_all add: gps_init_def)
  from gps_loop_windows [OF avg this, of sscanf minSats strs "[]"]
  show ?thesis by (auto simp add: win_run_def)
qed

lemma gps_main_windows:
  assumes avg: "\<not> f_le0 ops avgSecs"
  shows "\<exists>out. gps_main ops sscanf avgSecs minSats raw0 avg0 strs = Inr out \<and>
      avg_counts out
        = map (int \<circ> length) (win_all (win_run ops avgSecs x_tsecs (gps_valid sscanf minSats strs)))"
proof -
  let ?st = "win_run ops avgSecs x_tsecs (gps_valid sscanf minSats strs)"
  from gps_loop_init_windows [OF avg, of sscanf minSats strs raw0 avg0]
  obtain s out where l: "gps_loop ops sscanf avgSecs minSats strs (gps_init ops raw0 avg0) = Inr (s, out)"
    and c: "avg_counts out = map (int \<circ> length) (win_closed ?st)"
    and n: "st_navg s = int (length (win_open ?st))"
    by blast
  show ?thesis
  proof (cases "win_open ?st = []")
    case True
    with n have "st_navg s < 1" by simp
    from gps_showAverage_lt1 [OF this, of ops "st_raw s" "st_avg s"] l c True
    show ?thesis by (simp add: gps_main_def win_all_def)
  next
    case False
    with n have ge: "1 \<le> st_navg s" by (simp add: Suc_le_eq)
    from gps_showAverage_ge1 [OF ge, of ops "st_raw s" "st_avg s"]
    obtain f a' where "gps_showAverage ops (st_navg s) (st_raw s) (st_avg s) = Inr ([AvgColumns f (st_navg s)], a')"
      by blast
    with l c n False show ?thesis
      by (simp add: gps_main_def win_all_def avg_counts_append)
  qed
qed

lemma sensor_loop_init_windows:
  assumes avg: "\<not> f_le0 ops avgSecs"
  shows "\<exists>s out. sensor_loop ops sscanf avgSecs strs (sensor_init ops raw0 avg0) = Inr (s, out) \<and>
      map Some (data_lines out)
        = map (sensor_mean ops) (win_closed (win_run ops avgSecs SENSORDATA.tsecs (sensor_valid sscanf strs))) \<and>
      ss_navg s = int (length (win_open (win_run ops avgSecs SENSORDATA.tsecs (sensor_valid sscanf strs)))) \<and>
      (win_open (win_run ops avgSecs SENSORDATA.tsecs (sensor_valid sscanf strs)) \<noteq> [] \<longrightarrow>
         sensor_mean ops (win_open (win_run ops avgSecs SENSORDATA.tsecs (sensor_valid sscanf strs)))
           = Some (sensor_scale ops (ss_navg s) (ss_avg s)))"
proof -
  have "ss_navg (sensor_init ops raw0 avg0) = int (length ([] :: 'a SENSORDATA list))"
    and "ss_t0 (sensor_init ops raw0 avg0) = f_neg1 ops"
    and "([] :: 'a SENSORDATA list) \<noteq> [] \<longrightarrow>
           ss_avg (sensor_init ops raw0 avg0) = foldl (sensor_sum ops) (hd []) (tl [])"
    by (simp_all add: sensor_init_def)
  from sensor_loop_windows [OF avg this, of sscanf strs "[]"]
  show ?thesis by (auto simp add: win_run_def)
qed

lemma sensor_main_windows:
  assumes avg: "\<not> f_le0 ops avgSecs"
  shows "\<exists>out. sensor_main ops sscanf avgSecs raw0 avg0 strs = Inr out \<and>
      map Some (data_lines out)
        = map (sensor_mean ops) (win_all (win_run ops avgSecs SENSORDATA.tsecs (sensor_valid sscanf strs)))"
proof -
  let ?st = "win_run ops avgSecs SENSORDATA.tsecs (sensor_valid sscanf strs)"
  from sensor_loop_init_windows [OF avg, of sscanf strs raw0 avg0]
  obtain s out where l: "sensor_loop ops sscanf avgSecs strs (sensor_init ops raw0 avg0) = Inr (s, out)"
    and c: "map Some (data_lines out) = map (sensor_mean ops) (win_closed ?st)"
    and n: "ss_navg s = int (length (win_open ?st))"
    and m: "win_open ?st \<noteq> [] \<longrightarrow> sensor_mean ops (win_open ?st) = Some (sensor_scale ops (ss_navg s) (ss_avg s))"
    by blast
  show ?thesis
  proof (cases "win_open ?st = []")
    case True
    with n have "ss_navg s < 1" by simp
    from sensor_showAverage_lt1 [OF this, of ops "ss_avg s"] l c True
    show ?thesis by (simp add: sensor_main_def win_all_def)
  next
    case False
    with n have ge: "1 \<le> ss_navg s" by (simp add: Suc_le_eq)
    from sensor_showAverage_scale [OF ge, of ops "ss_avg s"] l c n m False
    show ?thesis
      by (simp add: sensor_main_def win_all_def data_lines_append)
  qed
qed

subsection \<open>Conservation of the records\<close>

text \<open>
  Claim C4.  With averaging enabled, the valid records of a run are cut into consecutive
  non-empty windows: every record is in exactly one of them.  \<^verbatim>\<open>hgps.c\<close> prints one
  averaged line per window, whose last column is the number of members, and these
  numbers add up to the number of valid records.  \<^verbatim>\<open>hsensor.c\<close> prints one data line
  per window, the sums of its members divided by their number (the line itself carries
  no count), and the numbers of members add up to the number of valid records.
\<close>

theorem window_count_conservation:
  assumes "\<not> f_le0 ops avgSecs"
  shows
    "(\<exists>out. gps_main ops gscan avgSecs minSats graw0 gavg0 gstrs = Inr out \<and>
        avg_counts out
          = map (int \<circ> length) (win_all (win_run ops avgSecs x_tsecs (gps_valid gscan minSats gstrs))) \<and>
        sum_list (avg_counts out) = int (length (gps_valid gscan minSats gstrs))) \<and>
     concat (win_all (win_run ops avgSecs x_tsecs (gps_valid gscan minSats gstrs)))
       = gps_valid gscan minSats gstrs \<and>
     [] \<notin> set (win_all (win_run ops avgSecs x_tsecs (gps_valid gscan minSats gstrs))) \<and>
     (\<exists>out. sensor_main ops sscan avgSecs sraw0 savg0 sstrs = Inr out \<and>
        map Some (data_lines out)
          = map (sensor_mean ops)
              (win_all (win_run ops avgSecs SENSORDATA.tsecs (sensor_valid sscan sstrs)))) \<and>
     sum_list (map (int \<circ> length)
                (win_all (win_run ops avgSecs SENSORDATA.tsecs (sensor_valid sscan sstrs))))
       = int (length (sensor_valid sscan sstrs)) \<and>
     concat (win_all (win_run ops avgSecs SENSORDATA.tsecs (sensor_valid sscan sstrs)))
       = sensor_valid sscan sstrs \<and>
     [] \<notin> set (win_all (win_run ops avgSecs SENSORDATA.tsecs (sensor_valid sscan sstrs)))"
proof -
  let ?gw = "win_all (win_run ops avgSecs x_tsecs (gps_valid gscan minSats gstrs))"
  let ?sw = "win_all (win_run ops avgSecs SENSORDATA.tsecs (sensor_valid sscan sstrs))"
  from gps_main_windows [OF assms, of gscan minSats graw0 gavg0 gstrs]
  obtain out where g: "gps_main ops gscan avgSecs minSats graw0 gavg0 gstrs = Inr out"
    and gc: "avg_counts out = map (int \<circ> length) ?gw"
    by blast
  have "sum_list (avg_counts out) = int (length (gps_valid gscan minSats gstrs))"
    unfolding gc by (simp only: sum_list_length_concat win_all_concat)
  with g gc have G: "\<exists>out. gps_main ops gscan avgSecs minSats graw0 gavg0 gstrs = Inr out \<and>
        avg_counts out = map (int \<circ> length) ?gw \<and>
        sum_list (avg_counts out) = int (length (gps_valid gscan minSats gstrs))"
    by blast
  have S: "sum_list (map (int \<circ> length) ?sw) = int (length (sensor_valid sscan sstrs))"
    by (simp only: sum_list_length_concat win_all_concat)
  from G S sensor_main_windows [OF assms, of sscan sraw0 savg0 sstrs]
  show ?thesis
    by (simp only: win_all_concat win_all_nonempty not_False_eq_True simp_thms)
qed

theorem window_count_conservation_witness:
  "\<not> f_le0 exact_ops 10 \<and>
   (\<exists>out. gps_main exact_ops gps_scan 10 4 gps_junk gps_junk gps_sample = Inr out \<and>
          avg_counts out = [3, 1] \<and> sum_list (avg_counts out) = 4) \<and>
   (\<exists>out. sensor_main exact_ops sensor_scan 10 sensor_junk sensor_junk sensor_sample = Inr out \<and>
          length (data_lines out) = 2)"
proof -
  have h: "\<not> f_le0 exact_ops 10"
    by (simp add: exact_ops_def)
  have gw: "map (int \<circ> length) (win_all (win_run exact_ops 10 x_tsecs (gps_valid gps_scan 4 gps_sample))) = [3, 1]"
    by code_simp
  have gv: "int (length (gps_valid gps_scan 4 gps_sample)) = 4"
    by code_simp
  have sw: "length (win_all (win_run exact_ops 10 SENSORDATA.tsecs (sensor_valid sensor_scan sensor_sample))) = 2"
    by code_simp
  from window_count_conservation [OF h, of gps_scan 4 gps_junk gps_junk gps_sample
      sensor_scan sensor_junk sensor_junk sensor_sample]
  obtain gout sout where
    g: "gps_main exact_ops gps_scan 10 4 gps_junk gps_junk gps_sample = Inr gout"
      "avg_counts gout = map (int \<circ> length) (win_all (win_run exact_ops 10 x_tsecs (gps_valid gps_scan 4 gps_sample)))"
      "sum_list (avg_counts gout) = int (length (gps_valid gps_scan 4 gps_sample))"
    and s: "sensor_main exact_ops sensor_scan 10 sensor_junk sensor_junk sensor_sample = Inr sout"
      "map Some (data_lines sout) = map (sensor_mean exact_ops)
          (win_all (win_run exact_ops 10 SENSORDATA.tsecs (sensor_valid sensor_scan sensor_sample)))"
    by blast
  from s(2) have "length (map Some (data_lines sout)) = length (map (sensor_mean exact_ops)
          (win_all (win_run exact_ops 10 SENSORDATA.tsecs (sensor_valid sensor_scan sensor_sample))))"
    by (rule arg_cong)
  with sw have "length (data_lines sout) = 2" by simp
  with h g gw gv s(1) show ?thesis by simp
qed

subsection \<open>Flushing at the window boundary\<close>

text \<open>
  Claim C3.  With averaging enabled, \<open>-1.0\<close> negative and no valid record with a negative
  time, the averaged lines printed while the loop runs are the closed windows of the
  specification, in order: a new window starts, and the open one is flushed, exactly at a
  valid record whose time exceeds the time of the first record of the open window by
  more than the window length.  The count of each averaged line of \<^verbatim>\<open>hgps.c\<close> is
  the number of records of its window, the count held in \<open>navg\<close> is the size of the open
  window, and the last \<^verbatim>\<open>showAverage\<close> flushes the open window if it has a member.
  Each data line of \<^verbatim>\<open>hsensor.c\<close> is the mean of its window.
\<close>

theorem flush_on_boundary:
  assumes "\<not> f_le0 ops avgSecs" and "f_lt0 ops (f_neg1 ops)"
    and "\<forall>r \<in> set (gps_valid gscan minSats gstrs). \<not> f_lt0 ops (x_tsecs r)"
    and "\<forall>r \<in> set (sensor_valid sscan sstrs). \<not> f_lt0 ops (SENSORDATA.tsecs r)"
  shows
    "(\<exists>s out. gps_loop ops gscan avgSecs minSats gstrs (gps_init ops graw0 gavg0) = Inr (s, out) \<and>
        avg_counts out
          = map (int \<circ> length) (fst (spec_run ops avgSecs x_tsecs (gps_valid gscan minSats gstrs))) \<and>
        st_navg s = int (length (snd (spec_run ops avgSecs x_tsecs (gps_valid gscan minSats gstrs))))) \<and>
     (\<exists>out. gps_main ops gscan avgSecs minSats graw0 gavg0 gstrs = Inr out \<and>
        avg_counts out
          = map (int \<circ> length) (spec_windows ops avgSecs x_tsecs (gps_valid gscan minSats gstrs))) \<and>
     (\<exists>s out. sensor_loop ops sscan avgSecs sstrs (sensor_init ops sraw0 savg0) = Inr (s, out) \<and>
        map Some (data_lines out)
          = map (sensor_mean ops)
              (fst (spec_run ops avgSecs SENSORDATA.tsecs (sensor_valid sscan sstrs))) \<and>
        ss_navg s = int (length (snd (spec_run ops avgSecs SENSORDATA.tsecs (sensor_valid sscan sstrs))))) \<and>
     (\<exists>out. sensor_main ops sscan avgSecs sraw0 savg0 sstrs = Inr out \<and>
        map Some (data_lines out)
          = map (sensor_mean ops)
              (spec_windows ops avgSecs SENSORDATA.tsecs (sensor_valid sscan sstrs)))"
proof -
  note g = win_all_spec [OF assms(2,3), of avgSecs]
  note s = win_all_spec [OF assms(2,4), of avgSecs]
  have 1: "\<exists>s out. gps_loop ops gscan avgSecs minSats gstrs (gps_init ops graw0 gavg0) = Inr (s, out) \<and>
        avg_counts out
          = map (int \<circ> length) (fst (spec_run ops avgSecs x_tsecs (gps_valid gscan minSats gstrs))) \<and>
        st_navg s = int (length (snd (spec_run ops avgSecs x_tsecs (gps_valid gscan minSats gstrs))))"
    using gps_loop_init_windows [OF assms(1), of gscan minSats gstrs graw0 gavg0]
    by (simp only: g)
  have 2: "\<exists>out. gps_main ops gscan avgSecs minSats graw0 gavg0 gstrs = Inr out \<and>
        avg_counts out
          = map (int \<circ> length) (spec_windows ops avgSecs x_tsecs (gps_valid gscan minSats gstrs))"
    using gps_main_windows [OF assms(1), of gscan minSats graw0 gavg0 gstrs]
    by (simp only: g)
  have 3: "\<exists>s out. sensor_loop ops sscan avgSecs sstrs (sensor_init ops sraw0 savg0) = Inr (s, out) \<and>
        map Some (data_lines out)
          = map (sensor_mean ops)
              (fst (spec_run ops avgSecs SENSORDATA.tsecs (sensor_valid sscan sstrs))) \<and>
        ss_navg s = int (length (snd (spec_run ops avgSecs SENSORDATA.tsecs (sensor_valid sscan sstrs))))"
    using sensor_loop_init_windows [OF assms(1), of sscan sstrs sraw0 savg0]
    unfolding s by blast
  have 4: "\<exists>out. sensor_main ops sscan avgSecs sraw0 savg0 sstrs = Inr out \<and>
        map Some (data_lines out)
          = map (sensor_mean ops)
              (spec_windows ops avgSecs SENSORDATA.tsecs (sensor_valid sscan sstrs))"
    using sensor_main_windows [OF assms(1), of sscan sraw0 savg0 sstrs]
    by (simp only: s)
  from 1 2 3 4 show ?thesis by blast
qed

theorem flush_on_boundary_witness:
  "\<not> f_le0 exact_ops 10 \<and> f_lt0 exact_ops (f_neg1 exact_ops) \<and>
   list_all (\<lambda>r. \<not> f_lt0 exact_ops (x_tsecs r)) (gps_valid gps_scan 4 gps_sample) \<and>
   list_all (\<lambda>r. \<not> f_lt0 exact_ops (SENSORDATA.tsecs r))
     (sensor_valid sensor_scan sensor_sample) \<and>
   (\<exists>s out. gps_loop exact_ops gps_scan 10 4 gps_sample (gps_init exact_ops gps_junk gps_junk) = Inr (s, out) \<and>
      avg_counts out = [3] \<and> st_navg s = 1) \<and>
   (\<exists>out. gps_main exact_ops gps_scan 10 4 gps_junk gps_junk gps_sample = Inr out \<and>
      avg_counts out = [3, 1]) \<and>
   (\<exists>s out. sensor_loop exact_ops sensor_scan 10 sensor_sample (sensor_init exact_ops sensor_junk sensor_junk) = Inr (s, out) \<and>
      length (data_lines out) = 1 \<and> ss_navg s = 1) \<and>
   (\<exists>out. sensor_main exact_ops sensor_scan 10 sensor_junk sensor_junk sensor_sample = Inr out \<and>
      length (data_lines out) = 2)"
proof -
  have h1: "\<not> f_le0 exact_ops 10" and h2: "f_lt0 exact_ops (f_neg1 exact_ops)"
    by (simp_all add: exact_ops_def)
  have h3: "\<forall>r \<in> set (gps_valid gps_scan 4 gps_sample). \<not> f_lt0 exact_ops (x_tsecs r)"
    by code_simp
  have h4: "\<forall>r \<in> set (sensor_valid sensor_scan sensor_sample). \<not> f_lt0 exact_ops (SENSORDATA.tsecs r)"
    by code_simp
  have e1: "map (int \<circ> length) (fst (spec_run exact_ops 10 x_tsecs (gps_valid gps_scan 4 gps_sample))) = [3]"
    by code_simp
  have e2: "int (length (snd (spec_run exact_ops 10 x_tsecs (gps_valid gps_scan 4 gps_sample)))) = 1"
    by code_simp
  have e3: "map (int \<circ> length) (spec_windows exact_ops 10 x_tsecs (gps_valid gps_scan 4 gps_sample)) = [3, 1]"
    by code_simp
  have e4: "length (fst (spec_run exact_ops 10 SENSORDATA.tsecs (sensor_valid sensor_scan sensor_sample))) = 1"
    by code_simp
  have e5: "int (length (snd (spec_run exact_ops 10 SENSORDATA.tsecs (sensor_valid sensor_scan sensor_sample)))) = 1"
    by code_simp
  have e6: "length (spec_windows exact_ops 10 SENSORDATA.tsecs (sensor_valid sensor_scan sensor_sample)) = 2"
    by code_simp
  have len: "\<And>xs ys. map Some xs = map (sensor_mean exact_ops) ys \<Longrightarrow> length xs = length ys"
    by (metis length_map)
  from flush_on_boundary [OF h1 h2 h3 h4, of gps_junk gps_junk sensor_junk sensor_junk]
  show ?thesis
    unfolding e1 e2 e3 e5
    using h1 h2 h3 h4 e4 e6 by (auto simp add: list_all_iff dest!: len)
qed

subsection \<open>Runs without averaging\<close>



lemma gps_line_plain_all:
  assumes "f_le0 ops avgSecs"
  shows "\<exists>r'. gps_line ops sscanf avgSecs minSats str s
           = Inr (s\<lparr>st_raw := r'\<rparr>, [gps_plain sscanf minSats str])"
proof (cases "gps_accepts sscanf minSats str")
  case False
  from gps_line_reject [OF False, of ops avgSecs s] False show ?thesis
    by (simp add: gps_plain_def)
next
  case True
  have "gps_line ops sscanf avgSecs minSats str s
          = Inr (s\<lparr>st_raw := gps_store 11 (gps_record sscanf str) (st_raw s)\<rparr>,
                 [gps_plain sscanf minSats str])"
    using assms True by (simp add: gps_line_accepted [OF True] Let_def gps_plain_def)
  then show ?thesis by blast
qed

lemma gps_loop_plain:
  assumes "f_le0 ops avgSecs"
  shows "\<exists>s'. gps_loop ops sscanf avgSecs minSats strs s
            = Inr (s', map (gps_plain sscanf minSats) strs) \<and>
          st_navg s' = st_navg s \<and> st_t0 s' = st_t0 s \<and> st_avg s' = st_avg s"
proof (induction strs arbitrary: s)
  case Nil
  show ?case by simp
next
  case (Cons str strs)
  from gps_line_plain_all [OF assms, of sscanf minSats str s]
  obtain r' where l: "gps_line ops sscanf avgSecs minSats str s
           = Inr (s\<lparr>st_raw := r'\<rparr>, [gps_plain sscanf minSats str])"
    by blast
  from Cons.IH [of "s\<lparr>st_raw := r'\<rparr>"] l show ?case by auto
qed

lemma gps_main_plain:
  assumes "f_le0 ops avgSecs"
  shows "gps_main ops sscanf avgSecs minSats raw0 avg0 strs
           = Inr (map (gps_plain sscanf minSats) strs)"
proof -
  from gps_loop_plain [OF assms, of sscanf minSats strs "gps_init ops raw0 avg0"]
  obtain s' where l: "gps_loop ops sscanf avgSecs minSats strs (gps_init ops raw0 avg0)
            = Inr (s', map (gps_plain sscanf minSats) strs)"
    and n: "st_navg s' = st_navg (gps_init ops raw0 avg0)"
    by blast
  from n have "st_navg s' < 1" by (simp add: gps_init_def)
  from gps_showAverage_lt1 [OF this, of ops "st_raw s'" "st_avg s'"] l
  show ?thesis by (simp add: gps_main_def)
qed



lemma sensor_line_plain_all:
  assumes "f_le0 ops avgSecs"
  shows "\<exists>r'. sensor_line ops sscanf avgSecs str s
           = Inr (s\<lparr>ss_raw := r'\<rparr>, [sensor_plain sscanf str])"
proof (cases "sensor_accepts sscanf str")
  case False
  from sensor_line_reject [OF False, of ops avgSecs s] False show ?thesis
    by (simp add: sensor_plain_def)
next
  case True
  have "sensor_line ops sscanf avgSecs str s
          = Inr (s\<lparr>ss_raw := snd (sscanf str)\<rparr>, [sensor_plain sscanf str])"
    using assms True by (simp add: sensor_line_accepted [OF True] Let_def sensor_plain_def)
  then show ?thesis by blast
qed

lemma sensor_loop_plain:
  assumes "f_le0 ops avgSecs"
  shows "\<exists>s'. sensor_loop ops sscanf avgSecs strs s
            = Inr (s', map (sensor_plain sscanf) strs) \<and>
          ss_navg s' = ss_navg s \<and> ss_t0 s' = ss_t0 s \<and> ss_avg s' = ss_avg s"
proof (induction strs arbitrary: s)
  case Nil
  show ?case by simp
next
  case (Cons str strs)
  from sensor_line_plain_all [OF assms, of sscanf str s]
  obtain r' where l: "sensor_line ops sscanf avgSecs str s
           = Inr (s\<lparr>ss_raw := r'\<rparr>, [sensor_plain sscanf str])"
    by blast
  from Cons.IH [of "s\<lparr>ss_raw := r'\<rparr>"] l show ?case by auto
qed

lemma sensor_main_plain:
  assumes "f_le0 ops avgSecs"
  shows "sensor_main ops sscanf avgSecs raw0 avg0 strs
           = Inr (map (sensor_plain sscanf) strs)"
proof -
  from sensor_loop_plain [OF assms, of sscanf strs "sensor_init ops raw0 avg0"]
  obtain s' where l: "sensor_loop ops sscanf avgSecs strs (sensor_init ops raw0 avg0)
            = Inr (s', map (sensor_plain sscanf) strs)"
    and n: "ss_navg s' = ss_navg (sensor_init ops raw0 avg0)"
    by blast
  from n have "ss_navg s' < 1" by (simp add: sensor_init_def)
  from sensor_showAverage_lt1 [OF this, of ops "ss_avg s'"] l
  show ?thesis by (simp add: sensor_main_def)
qed

text \<open>
  Claim C6.  When the window length is not positive, each program prints exactly one
  line per input line, in input order: the columns of the record for a valid record and
  the comment otherwise.  What is printed for a line depends on that line alone, and the
  count, the sums and \<open>t0\<close> after the loop are those before it.
\<close>

theorem no_averaging_identity:
  assumes "f_le0 ops avgSecs"
  shows
    "(\<exists>s'. gps_loop ops gscan avgSecs minSats gstrs gs
              = Inr (s', map (gps_plain gscan minSats) gstrs) \<and>
            st_navg s' = st_navg gs \<and> st_t0 s' = st_t0 gs \<and> st_avg s' = st_avg gs) \<and>
     gps_main ops gscan avgSecs minSats graw0 gavg0 gstrs
       = Inr (map (gps_plain gscan minSats) gstrs) \<and>
     (\<exists>s'. sensor_loop ops sscan avgSecs sstrs ss
              = Inr (s', map (sensor_plain sscan) sstrs) \<and>
            ss_navg s' = ss_navg ss \<and> ss_t0 s' = ss_t0 ss \<and> ss_avg s' = ss_avg ss) \<and>
     sensor_main ops sscan avgSecs sraw0 savg0 sstrs
       = Inr (map (sensor_plain sscan) sstrs)"
  using gps_loop_plain [OF assms, of gscan minSats gstrs gs]
    gps_main_plain [OF assms, of gscan minSats graw0 gavg0 gstrs]
    sensor_loop_plain [OF assms, of sscan sstrs ss]
    sensor_main_plain [OF assms, of sscan sraw0 savg0 sstrs]
  by blast


theorem no_averaging_identity_witness:
  "f_le0 exact_ops 0 \<and>
   gps_main exact_ops gps_scan 0 4 gps_junk gps_junk gps_sample =
     Inr [Comment ''# Time,Date,UTC,Lat,Lon,Alt,Sats'',
          Columns \<lparr>x_tsecs = 1, x_mday = 1, x_month = 2, x_year = 2024, x_hour = 0,
                   x_minute = 0, x_second = 1, x_lat = 10, x_lon = 20, x_alt = 5, x_nsats = 8\<rparr>,
          Columns \<lparr>x_tsecs = 5, x_mday = 1, x_month = 2, x_year = 2024, x_hour = 0,
                   x_minute = 0, x_second = 5, x_lat = 21 / 2, x_lon = 20, x_alt = 6, x_nsats = 7\<rparr>,
          Comment ''# 7.0,01/02/24,00:00:07,0.0,0.0,0.0,02'',
          Columns \<lparr>x_tsecs = 11, x_mday = 1, x_month = 2, x_year = 2024, x_hour = 0,
                   x_minute = 0, x_second = 11, x_lat = 11, x_lon = 20, x_alt = 7, x_nsats = 9\<rparr>,
          Columns \<lparr>x_tsecs = 12, x_mday = 1, x_month = 2, x_year = 2024, x_hour = 0,
                   x_minute = 0, x_second = 12, x_lat = 12, x_lon = 20, x_alt = 8, x_nsats = 8\<rparr>] \<and>
   (\<exists>out. sensor_main exact_ops sensor_scan 0 sensor_junk sensor_junk sensor_sample = Inr out \<and>
      length out = 6 \<and> map SENSORDATA.tsecs (data_lines out) = [1, 2, 20])"
proof -
  have h: "f_le0 exact_ops 0"
    by (simp add: exact_ops_def)
  have g: "map (gps_plain gps_scan 4) gps_sample =
     [Comment ''# Time,Date,UTC,Lat,Lon,Alt,Sats'',
          Columns \<lparr>x_tsecs = 1, x_mday = 1, x_month = 2, x_year = 2024, x_hour = 0,
                   x_minute = 0, x_second = 1, x_lat = 10, x_lon = 20, x_alt = 5, x_nsats = 8\<rparr>,
          Columns \<lparr>x_tsecs = 5, x_mday = 1, x_month = 2, x_year = 2024, x_hour = 0,
                   x_minute = 0, x_second = 5, x_lat = 21 / 2, x_lon = 20, x_alt = 6, x_nsats = 7\<rparr>,
          Comment ''# 7.0,01/02/24,00:00:07,0.0,0.0,0.0,02'',
          Columns \<lparr>x_tsecs = 11, x_mday = 1, x_month = 2, x_year = 2024, x_hour = 0,
                   x_minute = 0, x_second = 11, x_lat = 11, x_lon = 20, x_alt = 7, x_nsats = 9\<rparr>,
          Columns \<lparr>x_tsecs = 12, x_mday = 1, x_month = 2, x_year = 2024, x_hour = 0,
                   x_minute = 0, x_second = 12, x_lat = 12, x_lon = 20, x_alt = 8, x_nsats = 8\<rparr>]"
    by code_simp
  have s1: "length (map (sensor_plain sensor_scan) sensor_sample) = 6"
    by (simp add: sensor_sample_def)
  have s2: "map SENSORDATA.tsecs (data_lines (map (sensor_plain sensor_scan) sensor_sample)) = [1, 2, 20]"
    by code_simp
  from no_averaging_identity [OF h, of gps_scan 4 gps_sample "gps_init exact_ops gps_junk gps_junk"
      gps_junk gps_junk sensor_scan sensor_sample "sensor_init exact_ops sensor_junk sensor_junk"
      sensor_junk sensor_junk]
  show ?thesis
    using h s1 s2 unfolding g by simp
qed

subsection \<open>The end of the input\<close>

lemma win_step_open: "win_open (win_step ops w time st r) \<noteq> []"
  by (cases st) (simp add: win_step_def win_open_def)

lemma win_run_open:
  "(win_open (win_run ops w time rs) = []) = (rs = [])"
proof (cases rs rule: rev_cases)
  case Nil
  then show ?thesis by (simp add: win_run_def win_open_def)
next
  case (snoc ys y)
  then show ?thesis by (simp add: win_run_def win_step_open)
qed

lemma gps_loop_navg:
  "\<exists>s out. gps_loop ops sscanf avgSecs minSats strs (gps_init ops raw0 avg0) = Inr (s, out) \<and>
     (f_le0 ops avgSecs \<longrightarrow> st_navg s = 0) \<and>
     (\<not> f_le0 ops avgSecs \<longrightarrow> (1 \<le> st_navg s) = (gps_valid sscanf minSats strs \<noteq> []))"
proof (cases "f_le0 ops avgSecs")
  case True
  from gps_loop_plain [OF True, of sscanf minSats strs "gps_init ops raw0 avg0"] True
  show ?thesis by (auto simp add: gps_init_def)
next
  case False
  let ?o = "win_open (win_run ops avgSecs x_tsecs (gps_valid sscanf minSats strs))"
  from gps_loop_init_windows [OF False, of sscanf minSats strs raw0 avg0]
  obtain s out where l: "gps_loop ops sscanf avgSecs minSats strs (gps_init ops raw0 avg0) = Inr (s, out)"
    and n: "st_navg s = int (length ?o)"
    by blast
  have "(1 \<le> st_navg s) = (?o \<noteq> [])"
    unfolding n by (cases ?o) simp_all
  with l False show ?thesis by (simp add: win_run_open)
qed

lemma sensor_loop_navg:
  "\<exists>s out. sensor_loop ops sscanf avgSecs strs (sensor_init ops raw0 avg0) = Inr (s, out) \<and>
     (f_le0 ops avgSecs \<longrightarrow> ss_navg s = 0) \<and>
     (\<not> f_le0 ops avgSecs \<longrightarrow> (1 \<le> ss_navg s) = (sensor_valid sscanf strs \<noteq> []))"
proof (cases "f_le0 ops avgSecs")
  case True
  from sensor_loop_plain [OF True, of sscanf strs "sensor_init ops raw0 avg0"] True
  show ?thesis by (auto simp add: sensor_init_def)
next
  case False
  let ?o = "win_open (win_run ops avgSecs SENSORDATA.tsecs (sensor_valid sscanf strs))"
  from sensor_loop_init_windows [OF False, of sscanf strs raw0 avg0]
  obtain s out where l: "sensor_loop ops sscanf avgSecs strs (sensor_init ops raw0 avg0) = Inr (s, out)"
    and n: "ss_navg s = int (length ?o)"
    by blast
  have "(1 \<le> ss_navg s) = (?o \<noteq> [])"
    unfolding n by (cases ?o) simp_all
  with l False show ?thesis by (simp add: win_run_open)
qed

text \<open>
  Claim C5.  After the loop each program calls \<^verbatim>\<open>showAverage\<close> once.  If the count
  left by the loop is at least one, the output of the run is the output of the loop
  followed by exactly one averaged line for that count; if it is below one, the output
  of the run is the output of the loop.  Without averaging the count left by the loop is
  zero; with averaging it is at least one exactly when the input had a valid record.
\<close>

theorem end_of_input_flush:
  "(\<exists>s out. gps_loop ops gscan avgSecs minSats gstrs (gps_init ops graw0 gavg0) = Inr (s, out) \<and>
      (1 \<le> st_navg s \<longrightarrow>
         (\<exists>f. gps_main ops gscan avgSecs minSats graw0 gavg0 gstrs
                 = Inr (out @ [AvgColumns f (st_navg s)]))) \<and>
      (st_navg s < 1 \<longrightarrow> gps_main ops gscan avgSecs minSats graw0 gavg0 gstrs = Inr out) \<and>
      (f_le0 ops avgSecs \<longrightarrow> st_navg s = 0) \<and>
      (\<not> f_le0 ops avgSecs \<longrightarrow> (1 \<le> st_navg s) = (gps_valid gscan minSats gstrs \<noteq> []))) \<and>
   (\<exists>s out. sensor_loop ops sscan avgSecs sstrs (sensor_init ops sraw0 savg0) = Inr (s, out) \<and>
      (1 \<le> ss_navg s \<longrightarrow>
         sensor_main ops sscan avgSecs sraw0 savg0 sstrs
           = Inr (out @ [SColumns (sensor_scale ops (ss_navg s) (ss_avg s))])) \<and>
      (ss_navg s < 1 \<longrightarrow> sensor_main ops sscan avgSecs sraw0 savg0 sstrs = Inr out) \<and>
      (f_le0 ops avgSecs \<longrightarrow> ss_navg s = 0) \<and>
      (\<not> f_le0 ops avgSecs \<longrightarrow> (1 \<le> ss_navg s) = (sensor_valid sscan sstrs \<noteq> [])))"
proof -
  from gps_loop_navg [of ops gscan avgSecs minSats gstrs graw0 gavg0]
  obtain s out where l: "gps_loop ops gscan avgSecs minSats gstrs (gps_init ops graw0 gavg0) = Inr (s, out)"
    and n: "f_le0 ops avgSecs \<longrightarrow> st_navg s = 0"
      "\<not> f_le0 ops avgSecs \<longrightarrow> (1 \<le> st_navg s) = (gps_valid gscan minSats gstrs \<noteq> [])"
    by blast
  have a: "1 \<le> st_navg s \<longrightarrow>
         (\<exists>f. gps_main ops gscan avgSecs minSats graw0 gavg0 gstrs
                 = Inr (out @ [AvgColumns f (st_navg s)]))"
  proof
    assume "1 \<le> st_navg s"
    from gps_showAverage_ge1 [OF this, of ops "st_raw s" "st_avg s"] l
    show "\<exists>f. gps_main ops gscan avgSecs minSats graw0 gavg0 gstrs
                 = Inr (out @ [AvgColumns f (st_navg s)])"
      by (auto simp add: gps_main_def)
  qed
  have b: "st_navg s < 1 \<longrightarrow> gps_main ops gscan avgSecs minSats graw0 gavg0 gstrs = Inr out"
  proof
    assume "st_navg s < 1"
    from gps_showAverage_lt1 [OF this, of ops "st_raw s" "st_avg s"] l
    show "gps_main ops gscan avgSecs minSats graw0 gavg0 gstrs = Inr out"
      by (simp add: gps_main_def)
  qed
  from sensor_loop_navg [of ops sscan avgSecs sstrs sraw0 savg0]
  obtain s' out' where l': "sensor_loop ops sscan avgSecs sstrs (sensor_init ops sraw0 savg0) = Inr (s', out')"
    and n': "f_le0 ops avgSecs \<longrightarrow> ss_navg s' = 0"
      "\<not> f_le0 ops avgSecs \<longrightarrow> (1 \<le> ss_navg s') = (sensor_valid sscan sstrs \<noteq> [])"
    by blast
  have a': "1 \<le> ss_navg s' \<longrightarrow>
         sensor_main ops sscan avgSecs sraw0 savg0 sstrs
           = Inr (out' @ [SColumns (sensor_scale ops (ss_navg s') (ss_avg s'))])"
  proof
    assume "1 \<le> ss_navg s'"
    from sensor_showAverage_scale [OF this, of ops "ss_avg s'"] l'
    show "sensor_main ops sscan avgSecs sraw0 savg0 sstrs
           = Inr (out' @ [SColumns (sensor_scale ops (ss_navg s') (ss_avg s'))])"
      by (simp add: sensor_main_def)
  qed
  have b': "ss_navg s' < 1 \<longrightarrow> sensor_main ops sscan avgSecs sraw0 savg0 sstrs = Inr out'"
  proof
    assume "ss_navg s' < 1"
    from sensor_showAverage_lt1 [OF this, of ops "ss_avg s'"] l'
    show "sensor_main ops sscan avgSecs sraw0 savg0 sstrs = Inr out'"
      by (simp add: sensor_main_def)
  qed
  from l n a b l' n' a' b' show ?thesis by blast
qed


theorem end_of_input_flush_witness:
  "(\<exists>s out f.
      gps_loop exact_ops gps_scan 10 4 gps_sample (gps_init exact_ops gps_junk gps_junk) = Inr (s, out) \<and>
      1 \<le> st_navg s \<and>
      gps_main exact_ops gps_scan 10 4 gps_junk gps_junk gps_sample
        = Inr (out @ [AvgColumns f (st_navg s)])) \<and>
   (\<exists>s out.
      gps_loop exact_ops gps_scan 0 4 gps_sample (gps_init exact_ops gps_junk gps_junk) = Inr (s, out) \<and>
      st_navg s = 0 \<and>
      gps_main exact_ops gps_scan 0 4 gps_junk gps_junk gps_sample = Inr out) \<and>
   (\<exists>s out.
      sensor_loop exact_ops sensor_scan 10 sensor_sample (sensor_init exact_ops sensor_junk sensor_junk)
        = Inr (s, out) \<and>
      1 \<le> ss_navg s \<and>
      sensor_main exact_ops sensor_scan 10 sensor_junk sensor_junk sensor_sample
        = Inr (out @ [SColumns (sensor_scale exact_ops (ss_navg s) (ss_avg s))])) \<and>
   (\<exists>s out.
      sensor_loop exact_ops sensor_scan 0 sensor_sample (sensor_init exact_ops sensor_junk sensor_junk)
        = Inr (s, out) \<and>
      ss_navg s = 0 \<and>
      sensor_main exact_ops sensor_scan 0 sensor_junk sensor_junk sensor_sample = Inr out)"
proof -
  have on: "\<not> f_le0 exact_ops 10" and off: "f_le0 exact_ops 0"
    by (simp_all add: exact_ops_def)
  have gv: "gps_valid gps_scan 4 gps_sample \<noteq> []"
    by code_simp
  have sv: "sensor_valid sensor_scan sensor_sample \<noteq> []"
    by code_simp
  from end_of_input_flush [of exact_ops gps_scan 10 4 gps_sample gps_junk gps_junk
      sensor_scan sensor_sample sensor_junk sensor_junk] on gv sv
  have A: "(\<exists>s out f.
      gps_loop exact_ops gps_scan 10 4 gps_sample (gps_init exact_ops gps_junk gps_junk) = Inr (s, out) \<and>
      1 \<le> st_navg s \<and>
      gps_main exact_ops gps_scan 10 4 gps_junk gps_junk gps_sample
        = Inr (out @ [AvgColumns f (st_navg s)]))"
    and C: "(\<exists>s out.
      sensor_loop exact_ops sensor_scan 10 sensor_sample (sensor_init exact_ops sensor_junk sensor_junk)
        = Inr (s, out) \<and>
      1 \<le> ss_navg s \<and>
      sensor_main exact_ops sensor_scan 10 sensor_junk sensor_junk sensor_sample
        = Inr (out @ [SColumns (sensor_scale exact_ops (ss_navg s) (ss_avg s))]))"
    by auto
  from end_of_input_flush [of exact_ops gps_scan 0 4 gps_sample gps_junk gps_junk
      sensor_scan sensor_sample sensor_junk sensor_junk] off
  have B: "(\<exists>s out.
      gps_loop exact_ops gps_scan 0 4 gps_sample (gps_init exact_ops gps_junk gps_junk) = Inr (s, out) \<and>
      st_navg s = 0 \<and>
      gps_main exact_ops gps_scan 0 4 gps_junk gps_junk gps_sample = Inr out)"
    and D: "(\<exists>s out.
      sensor_loop exact_ops sensor_scan 0 sensor_sample (sensor_init exact_ops sensor_junk sensor_junk)
        = Inr (s, out) \<and>
      ss_navg s = 0 \<and>
      sensor_main exact_ops sensor_scan 0 sensor_junk sensor_junk sensor_sample = Inr out)"
    by auto
  from A B C D show ?thesis by blast
qed

subsection \<open>Lines that are not records\<close>


subsection \<open>Lines with more than a record\<close>





subsection \<open>The reference hour of the rollover test\<close>

lemma gps_updateAverage_first:
  "navg < 1 \<Longrightarrow>
   fst (gps_updateAverage ops navg r a) = 1 \<and>
   hour (snd (gps_updateAverage ops navg r a)) = hour r \<and>
   todaySecs (snd (gps_updateAverage ops navg r a)) = hour r * 3600 + minute r * 60 + second r \<and>
   mday (snd (gps_updateAverage ops navg r a)) = mday r \<and>
   month (snd (gps_updateAverage ops navg r a)) = month r \<and>
   year (snd (gps_updateAverage ops navg r a)) = year r"
  by (simp add: gps_updateAverage_def)

lemma gps_updateAverage_add:
  "1 \<le> navg \<Longrightarrow>
   fst (gps_updateAverage ops navg r a) = navg + 1 \<and>
   hour (snd (gps_updateAverage ops navg r a)) = hour a \<and>
   todaySecs (snd (gps_updateAverage ops navg r a)) = todaySecs a + rollover_secs (hour a) r \<and>
   mday (snd (gps_updateAverage ops navg r a)) = mday a \<and>
   month (snd (gps_updateAverage ops navg r a)) = month a \<and>
   year (snd (gps_updateAverage ops navg r a)) = year a"
  by (simp add: gps_updateAverage_def rollover_secs_def Let_def)

lemma gps_accumulate_Cons:
  "gps_accumulate ops (r # rs) (navg, a)
     = gps_accumulate ops rs (fst (gps_updateAverage ops navg r a),
                              snd (gps_updateAverage ops navg r a))"
  by (simp add: gps_accumulate_def)

lemma gps_accumulate_add:
  "1 \<le> navg \<Longrightarrow>
   fst (gps_accumulate ops rs (navg, a)) = navg + int (length rs) \<and>
   hour (snd (gps_accumulate ops rs (navg, a))) = hour a \<and>
   todaySecs (snd (gps_accumulate ops rs (navg, a)))
     = todaySecs a + sum_list (map (rollover_secs (hour a)) rs)"
proof (induction rs arbitrary: navg a)
  case Nil
  then show ?case by (simp add: gps_accumulate_def)
next
  case (Cons r rs)
  let ?p = "gps_updateAverage ops navg r a"
  from gps_updateAverage_add [OF Cons.prems, of ops r a]
  have u: "fst ?p = navg + 1" "hour (snd ?p) = hour a"
    "todaySecs (snd ?p) = todaySecs a + rollover_secs (hour a) r"
    by simp_all
  from Cons.prems u(1) have "1 \<le> fst ?p" by simp
  from Cons.IH [OF this, of "snd ?p"] u
  show ?case unfolding gps_accumulate_Cons by simp
qed

lemma gps_accumulate_window:
  "fst (gps_accumulate ops (r # rs) (0, a)) = 1 + int (length rs) \<and>
   hour (snd (gps_accumulate ops (r # rs) (0, a))) = hour r \<and>
   todaySecs (snd (gps_accumulate ops (r # rs) (0, a))) = todaySecs_first (r # rs)"
proof -
  let ?p = "gps_updateAverage ops 0 r a"
  have "(0::int) < 1" by simp
  from gps_updateAverage_first [OF this, of ops r a]
  have u: "fst ?p = 1" "hour (snd ?p) = hour r"
    "todaySecs (snd ?p) = hour r * 3600 + minute r * 60 + second r"
    by simp_all
  have "1 \<le> fst ?p" using u(1) by simp
  from gps_accumulate_add [OF this, of ops rs "snd ?p"] u
  show ?thesis unfolding gps_accumulate_Cons by (simp add: todaySecs_first_def)
qed

text \<open>
  Claim C2, as amended.  When \<^verbatim>\<open>updateAverage\<close> adds a record to sums that have at
  least one member, the hour it compares the record's hour with is the field \<open>hour\<close>
  of the sums, and the call leaves that field as it is.  The field is set by the call
  that starts the window, so through a whole window the reference is the raw hour of the
  window's first record.
\<close>

theorem reference_hour_is_first:
  "(1 \<le> navg \<longrightarrow>
      fst (gps_updateAverage ops navg r a) = navg + 1 \<and>
      todaySecs (snd (gps_updateAverage ops navg r a)) = todaySecs a + rollover_secs (hour a) r \<and>
      hour (snd (gps_updateAverage ops navg r a)) = hour a) \<and>
   hour (snd (gps_accumulate ops (r # rs) (0, a))) = hour r \<and>
   todaySecs (snd (gps_accumulate ops (r # rs) (0, a))) = todaySecs_first (r # rs)"
  using gps_updateAverage_add [of navg ops r a] gps_accumulate_window [of ops r rs a]
  by simp

theorem reference_hour_is_first_witness:
  "todaySecs (snd (gps_updateAverage exact_ops 2 (rollover_sample ! 2)
                    (snd (gps_accumulate exact_ops (take 2 rollover_sample) (0, gps_junk)))))
     = 172800 + ((0 + 24) * 3600 + 0 * 60 + 2) \<and>
   hour (snd (gps_updateAverage exact_ops 2 (rollover_sample ! 2)
                    (snd (gps_accumulate exact_ops (take 2 rollover_sample) (0, gps_junk))))) = 23"
proof -
  let ?a = "snd (gps_accumulate exact_ops (take 2 rollover_sample) (0, gps_junk))"
  have a: "todaySecs ?a = 172800" "hour ?a = 23"
    by code_simp+
  have r: "rollover_secs 23 (rollover_sample ! 2) = (0 + 24) * 3600 + 0 * 60 + 2"
    by code_simp
  have "(1::int) \<le> 2" by simp
  with reference_hour_is_first [of 2 exact_ops "rollover_sample ! 2" ?a]
  show ?thesis unfolding a r by simp
qed

text \<open>
  The claim as stated fails: for records at 23:59:59, 00:00:01 and 00:00:02 the third
  hour is not below the second, yet 24 hours are added for it, because the first hour is
  23.  The sum is 259202 and the program prints 00:00:00; a reference to the previous
  record would give 172802.
\<close>

theorem reference_hour_counterexample:
  "todaySecs (snd (gps_accumulate exact_ops rollover_sample (0, gps_junk))) = 259202 \<and>
   spec_todaySecs_previous rollover_sample = 172802 \<and>
   todaySecs (snd (gps_accumulate exact_ops rollover_sample (0, gps_junk)))
     \<noteq> spec_todaySecs_previous rollover_sample \<and>
   gps_main exact_ops gps_scan 10 0 gps_junk gps_junk rollover_lines
     = Inr [AvgColumns \<lparr>x_tsecs = 2, x_mday = 1, x_month = 1, x_year = 2024, x_hour = 0,
                        x_minute = 0, x_second = 0, x_lat = 10, x_lon = 20, x_alt = 5,
                        x_nsats = 8\<rparr> 3]"
  by code_simp

subsection \<open>A window across midnight\<close>

lemma gps_store_sel:
  "mday (gps_store 11 v r) = x_mday v" "month (gps_store 11 v r) = x_month v"
  "year (gps_store 11 v r) = x_year v" "hour (gps_store 11 v r) = x_hour v"
  "minute (gps_store 11 v r) = x_minute v" "second (gps_store 11 v r) = x_second v"
  by (simp_all add: gps_store_def)

lemma gps_record_sel:
  "x_mday (gps_record sscanf str) = x_mday (snd (sscanf str))"
  "x_month (gps_record sscanf str) = x_month (snd (sscanf str))"
  "x_year (gps_record sscanf str) = x_year (snd (sscanf str)) + 2000"
  "x_hour (gps_record sscanf str) = x_hour (snd (sscanf str))"
  "x_minute (gps_record sscanf str) = x_minute (snd (sscanf str))"
  "x_second (gps_record sscanf str) = x_second (snd (sscanf str))"
  "x_tsecs (gps_record sscanf str) = x_tsecs (snd (sscanf str))"
  by (simp_all add: gps_record_def)

lemma gps_showAverage_time:
  assumes "1 \<le> navg"
  shows "\<exists>f a'. gps_showAverage ops navg r a = Inr ([AvgColumns f navg], a') \<and>
    x_hour f = (if 24 \<le> (todaySecs a sdiv navg) sdiv 3600
                then (todaySecs a sdiv navg) sdiv 3600 - 24
                else (todaySecs a sdiv navg) sdiv 3600) \<and>
    x_minute f = (todaySecs a sdiv navg - (todaySecs a sdiv navg) sdiv 3600 * 3600) sdiv 60 \<and>
    x_second f = (todaySecs a sdiv navg) smod 60 \<and>
    x_mday f = (if 24 \<le> (todaySecs a sdiv navg) sdiv 3600 then mday r else mday a) \<and>
    x_month f = (if 24 \<le> (todaySecs a sdiv navg) sdiv 3600 then month r else month a) \<and>
    x_year f = (if 24 \<le> (todaySecs a sdiv navg) sdiv 3600 then year r else year a)"
  using assms
  by (simp add: gps_showAverage_def fdiv_assign_def idiv_assign_def Let_def)


lemma gps_one_window:
  assumes avg: "\<not> f_le0 ops avgSecs" and neg: "f_lt0 ops (f_neg1 ops)"
    and a1: "gps_accepts gscan minSats l1" and a2: "gps_accepts gscan minSats l2"
    and a3: "gps_accepts gscan minSats l3"
    and t1: "\<not> f_lt0 ops (x_tsecs (snd (gscan l1)))"
    and t2: "\<not> f_gt ops (f_sub ops (x_tsecs (snd (gscan l2))) (x_tsecs (snd (gscan l1)))) avgSecs"
    and t3: "\<not> f_gt ops (f_sub ops (x_tsecs (snd (gscan l3))) (x_tsecs (snd (gscan l1)))) avgSecs"
  shows "\<exists>s. gps_loop ops gscan avgSecs minSats [l1, l2, l3] (gps_init ops raw0 avg0) = Inr (s, []) \<and>
     st_navg s = 3 \<and>
     todaySecs (st_avg s)
       = x_hour (snd (gscan l1)) * 3600 + x_minute (snd (gscan l1)) * 60 + x_second (snd (gscan l1))
         + rollover_secs (x_hour (snd (gscan l1))) (st_raw s)
         + ((if x_hour (snd (gscan l2)) < x_hour (snd (gscan l1))
             then x_hour (snd (gscan l2)) + 24 else x_hour (snd (gscan l2))) * 3600
            + x_minute (snd (gscan l2)) * 60 + x_second (snd (gscan l2))) \<and>
     hour (st_raw s) = x_hour (snd (gscan l3)) \<and>
     minute (st_raw s) = x_minute (snd (gscan l3)) \<and>
     second (st_raw s) = x_second (snd (gscan l3)) \<and>
     mday (st_avg s) = x_mday (snd (gscan l1)) \<and>
     month (st_avg s) = x_month (snd (gscan l1)) \<and>
     year (st_avg s) = x_year (snd (gscan l1)) + 2000"
proof -
  let ?R1 = "gps_store 11 (gps_record gscan l1) raw0"
  let ?A1 = "snd (gps_updateAverage ops 0 ?R1 avg0)"
  let ?t = "x_tsecs (gps_record gscan l1)"
  let ?s1 = "\<lparr>st_navg = 1, st_t0 = ?t, st_raw = ?R1, st_avg = ?A1\<rparr>"
  let ?R2 = "gps_store 11 (gps_record gscan l2) ?R1"
  let ?A2 = "snd (gps_updateAverage ops 1 ?R2 ?A1)"
  let ?s2 = "\<lparr>st_navg = 2, st_t0 = ?t, st_raw = ?R2, st_avg = ?A2\<rparr>"
  let ?R3 = "gps_store 11 (gps_record gscan l3) ?R2"
  let ?A3 = "snd (gps_updateAverage ops 2 ?R3 ?A2)"
  let ?s3 = "\<lparr>st_navg = 3, st_t0 = ?t, st_raw = ?R3, st_avg = ?A3\<rparr>"
  have "(0::int) < 1" by simp
  from gps_showAverage_lt1 [OF this, of ops ?R1 avg0]
  have step1: "gps_line ops gscan avgSecs minSats l1 (gps_init ops raw0 avg0) = Inr (?s1, [])"
    using avg neg by (simp add: gps_line_accepted [OF a1] Let_def gps_init_def)
  have step2: "gps_line ops gscan avgSecs minSats l2 ?s1 = Inr (?s2, [])"
    using avg t1 t2 by (simp add: gps_line_accepted [OF a2] Let_def gps_record_sel)
  have step3: "gps_line ops gscan avgSecs minSats l3 ?s2 = Inr (?s3, [])"
    using avg t1 t3 by (simp add: gps_line_accepted [OF a3] Let_def gps_record_sel)
  have loop: "gps_loop ops gscan avgSecs minSats [l1, l2, l3] (gps_init ops raw0 avg0) = Inr (?s3, [])"
    by (simp add: step1 step2 step3)
  have "(0::int) < 1" by simp
  note u1 = gps_updateAverage_first [OF this, of ops ?R1 avg0]
  have "(1::int) \<le> 1" by simp
  note u2 = gps_updateAverage_add [OF this, of ops ?R2 ?A1]
  have "(1::int) \<le> 2" by simp
  note u3 = gps_updateAverage_add [OF this, of ops ?R3 ?A2]
  have tod: "todaySecs ?A3
       = x_hour (snd (gscan l1)) * 3600 + x_minute (snd (gscan l1)) * 60 + x_second (snd (gscan l1))
         + rollover_secs (x_hour (snd (gscan l1))) ?R3
         + ((if x_hour (snd (gscan l2)) < x_hour (snd (gscan l1))
             then x_hour (snd (gscan l2)) + 24 else x_hour (snd (gscan l2))) * 3600
            + x_minute (snd (gscan l2)) * 60 + x_second (snd (gscan l2)))"
    using u1 u2 u3 by (simp add: gps_store_sel gps_record_sel rollover_secs_def)
  have date: "mday ?A3 = x_mday (snd (gscan l1))" "month ?A3 = x_month (snd (gscan l1))"
    "year ?A3 = x_year (snd (gscan l1)) + 2000"
    using u1 u2 u3 by (simp_all add: gps_store_sel gps_record_sel)
  have raw: "hour ?R3 = x_hour (snd (gscan l3))" "minute ?R3 = x_minute (snd (gscan l3))"
    "second ?R3 = x_second (snd (gscan l3))"
    by (simp_all add: gps_store_sel gps_record_sel)
  from loop tod date raw show ?thesis by simp
qed


text \<open>
  Claim C1, as amended.  With averaging enabled, three valid records in one window whose
  times of day are 23:59:58, 23:59:59 and 00:00:01 give the sum 86398 + 86399 + 86401
  (the third record gets 24 hours added), whose integer average is 86399.  The hour of
  86399 seconds is 23, below 24, so the branch that keeps the hour is taken: the line
  printed at the end of the input has the time 23:59:59, the date of the first record
  of the window and the count 3.
\<close>

theorem midnight_window_average:
  assumes "\<not> f_le0 ops avgSecs" and "f_lt0 ops (f_neg1 ops)"
    and "gps_accepts gscan minSats l1" and "gps_accepts gscan minSats l2"
    and "gps_accepts gscan minSats l3"
    and "x_hour (snd (gscan l1)) = 23" "x_minute (snd (gscan l1)) = 59" "x_second (snd (gscan l1)) = 58"
    and "x_hour (snd (gscan l2)) = 23" "x_minute (snd (gscan l2)) = 59" "x_second (snd (gscan l2)) = 59"
    and "x_hour (snd (gscan l3)) = 0" "x_minute (snd (gscan l3)) = 0" "x_second (snd (gscan l3)) = 1"
    and "\<not> f_lt0 ops (x_tsecs (snd (gscan l1)))"
    and "\<not> f_gt ops (f_sub ops (x_tsecs (snd (gscan l2))) (x_tsecs (snd (gscan l1)))) avgSecs"
    and "\<not> f_gt ops (f_sub ops (x_tsecs (snd (gscan l3))) (x_tsecs (snd (gscan l1)))) avgSecs"
  shows
    "(\<exists>s. gps_loop ops gscan avgSecs minSats [l1, l2, l3] (gps_init ops raw0 avg0) = Inr (s, []) \<and>
        st_navg s = 3 \<and> todaySecs (st_avg s) = 86398 + 86399 + 86401 \<and>
        todaySecs (st_avg s) sdiv st_navg s = 86399) \<and>
     (\<exists>f. gps_main ops gscan avgSecs minSats raw0 avg0 [l1, l2, l3] = Inr [AvgColumns f 3] \<and>
        x_hour f = 23 \<and> x_minute f = 59 \<and> x_second f = 59 \<and>
        x_mday f = x_mday (snd (gscan l1)) \<and>
        x_month f = x_month (snd (gscan l1)) \<and>
        x_year f = x_year (snd (gscan l1)) + 2000)"
proof -
  from gps_one_window [OF assms(1-5) assms(15-17), of raw0 avg0]
  obtain s where
    l: "gps_loop ops gscan avgSecs minSats [l1, l2, l3] (gps_init ops raw0 avg0) = Inr (s, [])"
    and n: "st_navg s = 3"
    and t: "todaySecs (st_avg s)
       = x_hour (snd (gscan l1)) * 3600 + x_minute (snd (gscan l1)) * 60 + x_second (snd (gscan l1))
         + rollover_secs (x_hour (snd (gscan l1))) (st_raw s)
         + ((if x_hour (snd (gscan l2)) < x_hour (snd (gscan l1))
             then x_hour (snd (gscan l2)) + 24 else x_hour (snd (gscan l2))) * 3600
            + x_minute (snd (gscan l2)) * 60 + x_second (snd (gscan l2)))"
    and r: "hour (st_raw s) = x_hour (snd (gscan l3))" "minute (st_raw s) = x_minute (snd (gscan l3))"
      "second (st_raw s) = x_second (snd (gscan l3))"
    and d: "mday (st_avg s) = x_mday (snd (gscan l1))" "month (st_avg s) = x_month (snd (gscan l1))"
      "year (st_avg s) = x_year (snd (gscan l1)) + 2000"
    by blast
  have sum: "todaySecs (st_avg s) = 259198"
    unfolding t using r assms(6-14) by (simp add: rollover_secs_def)
  have q: "(259198::int) sdiv 3 = 86399" "(86399::int) sdiv 3600 = 23"
    "((86399::int) - 23 * 3600) sdiv 60 = 59" "(86399::int) smod 60 = 59"
    by (simp_all add: signed_divide_int_def signed_modulo_int_def)
  have "(1::int) \<le> 3" by simp
  from gps_showAverage_time [OF this, of ops "st_raw s" "st_avg s"]
  obtain f a' where sh: "gps_showAverage ops 3 (st_raw s) (st_avg s) = Inr ([AvgColumns f 3], a')"
    and f: "x_hour f = 23" "x_minute f = 59" "x_second f = 59"
      "x_mday f = mday (st_avg s)" "x_month f = month (st_avg s)" "x_year f = year (st_avg s)"
    unfolding sum q by auto
  have main: "gps_main ops gscan avgSecs minSats raw0 avg0 [l1, l2, l3] = Inr [AvgColumns f 3]"
    unfolding gps_main_def l using sh n by simp
  have A: "\<exists>s. gps_loop ops gscan avgSecs minSats [l1, l2, l3] (gps_init ops raw0 avg0) = Inr (s, []) \<and>
        st_navg s = 3 \<and> todaySecs (st_avg s) = 86398 + 86399 + 86401 \<and>
        todaySecs (st_avg s) sdiv st_navg s = 86399"
    using l n sum q(1) by auto
  have B: "\<exists>f. gps_main ops gscan avgSecs minSats raw0 avg0 [l1, l2, l3] = Inr [AvgColumns f 3] \<and>
        x_hour f = 23 \<and> x_minute f = 59 \<and> x_second f = 59 \<and>
        x_mday f = x_mday (snd (gscan l1)) \<and>
        x_month f = x_month (snd (gscan l1)) \<and>
        x_year f = x_year (snd (gscan l1)) + 2000"
    using main f d by auto
  from A B show ?thesis by (rule conjI)
qed


theorem midnight_window_average_witness:
  "(\<exists>s. gps_loop exact_ops gps_scan 10 0
           [''1.0,31/12/23,23:59:58,10.0,20.0,5.0,08'',
            ''2.0,31/12/23,23:59:59,10.0,20.0,5.0,08'',
            ''3.0,01/01/24,00:00:01,10.0,20.0,5.0,08'']
           (gps_init exact_ops gps_junk gps_junk) = Inr (s, []) \<and>
        st_navg s = 3 \<and> todaySecs (st_avg s) = 86398 + 86399 + 86401 \<and>
        todaySecs (st_avg s) sdiv st_navg s = 86399) \<and>
   (\<exists>f. gps_main exact_ops gps_scan 10 0 gps_junk gps_junk
           [''1.0,31/12/23,23:59:58,10.0,20.0,5.0,08'',
            ''2.0,31/12/23,23:59:59,10.0,20.0,5.0,08'',
            ''3.0,01/01/24,00:00:01,10.0,20.0,5.0,08''] = Inr [AvgColumns f 3] \<and>
        x_hour f = 23 \<and> x_minute f = 59 \<and> x_second f = 59 \<and>
        x_mday f = 31 \<and> x_month f = 12 \<and> x_year f = 23 + 2000)"
proof -
  let ?l1 = "''1.0,31/12/23,23:59:58,10.0,20.0,5.0,08''"
  let ?l2 = "''2.0,31/12/23,23:59:59,10.0,20.0,5.0,08''"
  let ?l3 = "''3.0,01/01/24,00:00:01,10.0,20.0,5.0,08''"
  have h1: "\<not> f_le0 exact_ops 10" and h2: "f_lt0 exact_ops (f_neg1 exact_ops)"
    by (simp_all add: exact_ops_def)
  have a: "gps_accepts gps_scan 0 ?l1" "gps_accepts gps_scan 0 ?l2" "gps_accepts gps_scan 0 ?l3"
    by code_simp+
  have v1: "x_hour (snd (gps_scan ?l1)) = 23" "x_minute (snd (gps_scan ?l1)) = 59"
    "x_second (snd (gps_scan ?l1)) = 58"
    by code_simp+
  have v2: "x_hour (snd (gps_scan ?l2)) = 23" "x_minute (snd (gps_scan ?l2)) = 59"
    "x_second (snd (gps_scan ?l2)) = 59"
    by code_simp+
  have v3: "x_hour (snd (gps_scan ?l3)) = 0" "x_minute (snd (gps_scan ?l3)) = 0"
    "x_second (snd (gps_scan ?l3)) = 1"
    by code_simp+
  have t1: "\<not> f_lt0 exact_ops (x_tsecs (snd (gps_scan ?l1)))"
    by code_simp
  have t2: "\<not> f_gt exact_ops (f_sub exact_ops (x_tsecs (snd (gps_scan ?l2)))
                 (x_tsecs (snd (gps_scan ?l1)))) 10"
    by code_simp
  have t3: "\<not> f_gt exact_ops (f_sub exact_ops (x_tsecs (snd (gps_scan ?l3)))
                 (x_tsecs (snd (gps_scan ?l1)))) 10"
    by code_simp
  have d: "x_mday (snd (gps_scan ?l1)) = 31" "x_month (snd (gps_scan ?l1)) = 12"
    "x_year (snd (gps_scan ?l1)) = 23"
    by code_simp+
  from midnight_window_average [OF h1 h2 a v1 v2 v3 t1 t2 t3, of gps_junk gps_junk]
  show ?thesis unfolding d .
qed

text \<open>
  The claim as stated fails on its own input: the hour of the average is 23, the branch
  for an hour of 24 or more is not taken, and the date printed is 31/12/2023, the date of
  the first record, not 01/01/2024.
\<close>

theorem midnight_window_counterexample:
  "gps_main exact_ops gps_scan 10 0 gps_junk gps_junk midnight_sample
     = Inr [AvgColumns \<lparr>x_tsecs = 2, x_mday = 31, x_month = 12, x_year = 2023, x_hour = 23,
                        x_minute = 59, x_second = 59, x_lat = 10, x_lon = 20, x_alt = 5,
                        x_nsats = 8\<rparr> 3] \<and>
   (86398 + 86399 + 86401) sdiv 3 = (86399 :: int) \<and>
   \<not> 24 \<le> (86399 :: int) sdiv 3600 \<and>
   map (gps_record gps_scan) midnight_sample ! 2
     = \<lparr>x_tsecs = 3, x_mday = 1, x_month = 1, x_year = 2024, x_hour = 0,
        x_minute = 0, x_second = 1, x_lat = 10, x_lon = 20, x_alt = 5, x_nsats = 8\<rparr>"
  by code_simp


subsection \<open>A record with too few satellites at the end of the input\<close>

text \<open>
  Claim C9.  A record with fewer satellites than the minimum is printed as a comment
  and changes neither the count nor the sums nor \<open>t0\<close>, but its values stay in \<open>raw\<close>,
  the year not yet made a full year.  When it is the last line with a record and the
  average time of the open window is 24:00:00 or later, the last \<^verbatim>\<open>showAverage\<close>
  prints the date of \<open>raw\<close>: here a window of 23:59:59 on 31/12/23 and 00:00:03 on
  01/01/24, followed by a record of 01/01/24 with two satellites for a minimum of four,
  is printed with the year 24.  Without the last line the year is 2024.
\<close>

theorem filtered_record_date_in_average:
  "gps_main exact_ops gps_scan 10 4 gps_junk gps_junk filtered_last_sample
     = Inr [Comment ''# 3.0,01/01/24,00:00:04,10.0,20.0,5.0,02'',
            AvgColumns \<lparr>x_tsecs = 3 / 2, x_mday = 1, x_month = 1, x_year = 24, x_hour = 0,
                        x_minute = 0, x_second = 1, x_lat = 10, x_lon = 20, x_alt = 5,
                        x_nsats = 8\<rparr> 2] \<and>
   gps_main exact_ops gps_scan 10 4 gps_junk gps_junk (butlast filtered_last_sample)
     = Inr [AvgColumns \<lparr>x_tsecs = 3 / 2, x_mday = 1, x_month = 1, x_year = 2024, x_hour = 0,
                        x_minute = 0, x_second = 1, x_lat = 10, x_lon = 20, x_alt = 5,
                        x_nsats = 8\<rparr> 2] \<and>
   x_nsats (snd (gps_scan (last filtered_last_sample))) = 2 \<and>
   gps_valid gps_scan 4 filtered_last_sample = gps_valid gps_scan 4 (butlast filtered_last_sample)"
  by code_simp

subsection \<open>Lines and the strings read\<close>




subsection \<open>The comments of a run\<close>









subsection \<open>Lines that are not records, in the file\<close>





subsection \<open>Lines with more than a record, in the file\<close>









end
